theory Spec2Isabelle
  imports Main "HOL-Library.Word" "HOL-Library.Monad_Syntax"
begin

unbundle bit_operations_syntax

chapter \<open>Definitions\<close>

section \<open>JavaScript values\<close>

text \<open>
  The bitwise operators of JavaScript convert both operands to a signed 32-bit integer
  (ToInt32), work on the 32 bits and return a signed 32-bit integer; a shift uses its
  count modulo 32. Integral JavaScript numbers are modelled as \<open>int\<close>; the conversion is
  \<open>word_of_int\<close> into \<open>32 word\<close>, the result is read back with \<open>sint\<close>.
\<close>

type_synonym int32 = "32 word"

definition js_and :: "int \<Rightarrow> int \<Rightarrow> int" where
  "js_and a b = sint ((word_of_int a :: int32) AND word_of_int b)"

definition js_or :: "int \<Rightarrow> int \<Rightarrow> int" where
  "js_or a b = sint ((word_of_int a :: int32) OR word_of_int b)"

definition js_shl :: "int \<Rightarrow> nat \<Rightarrow> int" where
  "js_shl a k = sint (push_bit (k mod 32) (word_of_int a :: int32))"

definition js_shr :: "int \<Rightarrow> nat \<Rightarrow> int" where
  "js_shr a k = sint (signed_drop_bit (k mod 32) (word_of_int a :: int32))"

text \<open>
  A value held in an array or in a numeric field: an integral number, \<open>NaN\<close> or
  \<open>undefined\<close>. \<open>popNextN\<close> pushes \<open>undefined\<close> once the array it shifts from is empty,
  \<open>parseInt\<close> yields \<open>NaN\<close> on a string without digits, and \<open>streamSeq\<close> is
  \<open>undefined\<close> until it is assigned. ToInt32 sends \<open>NaN\<close> and \<open>undefined\<close> to 0.
\<close>

datatype jsval = JUndef | JNaN | JNum int

type_synonym jsarr = "jsval list"

definition toInt :: "jsval \<Rightarrow> int" where
  "toInt v = (case v of JNum n \<Rightarrow> n | _ \<Rightarrow> 0)"

definition nums :: "int list \<Rightarrow> jsarr" where
  "nums xs = map JNum xs"

text \<open>
  The postfix increment \<open>x++\<close> stores \<open>ToNumber(x) + 1\<close>: \<open>NaN\<close> for \<open>undefined\<close> and
  for \<open>NaN\<close>. Numbers are IEEE doubles: adding 1 is exact below \<open>2^53\<close> and leaves
  \<open>2^53\<close> itself unchanged. The only field incremented this way starts at 0, so it never
  leaves the range \<open>0 .. 2^53\<close>.
\<close>

definition js_incr :: "jsval \<Rightarrow> jsval" where
  "js_incr v = (case v of JNum n \<Rightarrow> JNum (if n < 2 ^ 53 then n + 1 else n) | _ \<Rightarrow> JNaN)"

section \<open>dtlsclient.js: constants\<close>

definition DTLS_MASTER_SECRET_LENGTH :: nat where "DTLS_MASTER_SECRET_LENGTH = 48"

definition CLIENT_HELLO :: int where "CLIENT_HELLO = 1"
definition SERVER_HELLO :: int where "SERVER_HELLO = 2"
definition HELLO_VERIFY_REQUEST :: int where "HELLO_VERIFY_REQUEST = 3"
definition SERVER_HELLO_DONE :: int where "SERVER_HELLO_DONE = 14"
definition CLIENT_KEY_EXCHANGE :: int where "CLIENT_KEY_EXCHANGE = 16"
definition FINISHED :: int where "FINISHED = 20"

definition CHANGE_CIPHER_SPEC :: int where "CHANGE_CIPHER_SPEC = 20"
definition ALERT :: int where "ALERT = 21"
definition HANDSHAKE :: int where "HANDSHAKE = 22"
definition APPLICATION_DATA :: int where "APPLICATION_DATA = 23"

definition DTLS_1_2 :: int where "DTLS_1_2 = 0xfefd"
definition TLS_PSK_WITH_AES_128_GCM_SHA256 :: int where "TLS_PSK_WITH_AES_128_GCM_SHA256 = 0x00a8"

section \<open>dtlsclient.js: integer and string encoding\<close>

text \<open>
  \<open>uintToArray(number, length)\<close>: one push per threshold that \<open>length\<close> reaches, most
  significant first. The masks and shift counts are the source's: the mask
  \<open>0xFF00000000\<close> is used twice, with the shifts 40 and 32.
\<close>

definition uintToArray :: "int \<Rightarrow> int \<Rightarrow> int list" where
  "uintToArray number len =
     (if len \<ge> 48 then [js_shr (js_and number 0xFF00000000) 40] else []) @
     (if len \<ge> 40 then [js_shr (js_and number 0xFF00000000) 32] else []) @
     (if len \<ge> 32 then [js_shr (js_and number 0xFF000000) 24] else []) @
     (if len \<ge> 24 then [js_shr (js_and number 0xFF0000) 16] else []) @
     (if len \<ge> 16 then [js_shr (js_and number 0xFF00) 8] else []) @
     (if len \<ge> 8 then [js_and number 0xFF] else [])"

text \<open>
  \<open>arrayToUint(a)\<close>: the loop \<open>for (let i in a)\<close> visits the elements in index order;
  \<open>number | a[i]\<close> converts the element with ToInt32.
\<close>

fun arrayToUint_loop :: "int \<Rightarrow> jsarr \<Rightarrow> int" where
  "arrayToUint_loop number [] = number"
| "arrayToUint_loop number (x # a) = arrayToUint_loop (js_or (js_shl number 8) (toInt x)) a"

definition arrayToUint :: "jsarr \<Rightarrow> int" where
  "arrayToUint a = arrayToUint_loop 0 a"

text \<open>
  \<open>stringToArray(s)\<close>: one element \<open>uintToArray(charCode, 8)\<close> per character. A
  JavaScript string is modelled as a HOL \<open>string\<close>, whose characters have the codes 0 to 255.
\<close>

definition charCodeAt :: "char \<Rightarrow> int" where
  "charCodeAt c = of_char c"

fun stringToArray :: "string \<Rightarrow> int list" where
  "stringToArray [] = []"
| "stringToArray (c # s) = uintToArray (charCodeAt c) 8 @ stringToArray s"

section \<open>dtlsclient.js: packets, the client object and its collaborators\<close>

text \<open>
  An exception of the source is a value. \<open>Diverges\<close> stands for a loop of the source that
  does not end. A function that can throw returns \<open>error + 'a\<close>; the state the object was
  left in by the statements before the \<open>throw\<close> is not kept.
\<close>

datatype error = TypeError | IllegalKeyLength nat | Diverges

text \<open>
  An outgoing packet is a property bag. Properties that are always numbers are \<open>int\<close>;
  \<open>hType\<close>, \<open>sessionId\<close> and \<open>handshakeSeq\<close> are absent from some packets
  (\<open>JUndef\<close>); \<open>cookie\<close> is the number 0 (\<open>None\<close>) or an array; \<open>random\<close> is absent
  until the first ClientHello body is built from the packet. The property \<open>psk\<close> of the
  key-exchange packet is never read and is left out.
\<close>

record packet =
  cType :: int
  hType :: jsval
  epoch :: int
  headerSeq :: jsval
  sessionId :: jsval
  cookie :: "jsarr option"
  handshakeSeq :: jsval
  randomP :: "jsarr option"

text \<open>A packet read from the wire by \<open>_readPacket\<close> and \<open>_readHandshakePacket\<close>.\<close>

record rpacket =
  rcType :: int
  rprotocolVersion :: int
  repoch :: int
  rheaderSeq :: int
  rhType :: "int option"
  rhandshakeSeq :: "int option"
  rfragmentOffset :: "int option"
  rfragmentLength :: "int option"
  rprotocolVersionH :: "int option"
  rcookieLegth :: "int option"
  rcookie :: "jsarr option"
  rtime :: "jsarr option"
  rrandom :: "jsarr option"
  rsessionIdLength :: "int option"
  rsessionId :: "jsarr option"
  rcipherSuite :: "int option"

datatype callback = SendHandshakeCipherSpec | SendHandshakeFinished

datatype signal = Connected | Disconnected

text \<open>
  The fields of the \<open>DTLSClient\<close> object, followed by the part of its surroundings that
  the methods act on:
  \<^item> \<open>written\<close>: every array handed to \<open>write_all_async\<close>, in order;
  \<^item> \<open>pendingWrites\<close>: the completion callbacks of the writes that have not completed;
  \<^item> \<open>emitted\<close>: the signals emitted, in order;
  \<^item> \<open>sources\<close>: the GLib timeout sources that are armed, each with its id, its
    interval in milliseconds and the \<open>attemptCounter\<close> its closure captured;
  \<^item> \<open>randomCalls\<close>: how many times \<open>Math.random\<close> has been called.
  The string properties \<open>psk\<close> and \<open>pskidentity\<close> are \<open>null\<close> (\<open>None\<close>) until set.
\<close>

record client =
  timers :: "nat list"
  handshakeInProgress :: bool
  encrypted :: bool
  protocolVersion :: int
  cipherSuites :: int
  handshakeMessages :: "jsval \<rightharpoonup> jsarr"
  psk :: "string option"
  pskIdentity :: "string option"
  clientRandom :: "jsarr option"
  serverRandom :: "jsarr option"
  masterSecret :: "jsarr option"
  keyBlock :: "jsarr option"
  clientWriteKey :: "jsarr option"
  serverWriteKey :: "jsarr option"
  clientIV :: "jsarr option"
  serverIV :: "jsarr option"
  helloClientPacket :: "packet option"
  streamSeq :: jsval
  readyToSend :: "bool option"
  connection :: bool
  outputCancelled :: bool
  inputCancelled :: bool
  socketClosed :: bool
  written :: "jsarr list"
  pendingWrites :: "callback option list"
  emitted :: "signal list"
  sources :: "(nat \<times> nat \<times> nat) list"
  nextSourceId :: nat
  randomCalls :: nat

text \<open>
  Code of the repository that is not among the sources (\<open>crypto/hashing.js\<close>,
  \<open>crypto/gcm.js\<close>, \<open>utils.js\<close>) and \<open>Math.random\<close> are parameters:
  \<^item> \<open>HMAC secret message\<close> with SHA-256 as its hash, and \<open>sha256\<close>;
  \<open>authenticatedEncryption plaintext aad nonce key\<close> returns the cipher text and the
    tag, or throws (\<open>None\<close>); the key is \<open>None\<close> when the field passed is \<open>undefined\<close>;
  \<^item> \<open>authenticatedDecryption ciphertext aad nonce tag key\<close> returns an array, or throws
    or returns a value that is no array (\<open>None\<close>: the next statement of the caller throws);
  \<^item> \<open>removeFromArray\<close> of \<open>utils.js\<close>;
  \<^item> \<open>mathRandom k\<close> determines the \<open>k\<close>-th result of \<open>getRandomInt\<close>.
\<close>

record env =
  HMAC :: "jsarr \<Rightarrow> jsarr \<Rightarrow> jsarr"
  sha256 :: "jsarr \<Rightarrow> jsarr"
  authenticatedEncryption :: "jsarr \<Rightarrow> jsarr \<Rightarrow> jsarr \<Rightarrow> jsarr option \<Rightarrow> (jsarr \<times> jsarr) option"
  authenticatedDecryption :: "jsarr \<Rightarrow> jsarr \<Rightarrow> jsarr \<Rightarrow> jsarr \<Rightarrow> jsarr \<Rightarrow> jsarr option"
  removeFromArray :: "nat list \<Rightarrow> nat \<Rightarrow> nat list"
  mathRandom :: "nat \<Rightarrow> nat"

text \<open>
  \<open>getRandomInt(max) = Math.floor(Math.random() * Math.floor(max))\<close>, a number from 0 to
  \<open>max - 1\<close>; \<open>k\<close> is the number of earlier calls.
\<close>

definition getRandomInt :: "env \<Rightarrow> nat \<Rightarrow> nat \<Rightarrow> int" where
  "getRandomInt e k maxv = int (mathRandom e k mod maxv)"

text \<open>The state \<open>_init\<close> leaves, for a client constructed with the given properties.\<close>

definition init :: "string option \<Rightarrow> string option \<Rightarrow> client" where
  "init pskValue pskIdentityValue =
     \<lparr> timers = [], handshakeInProgress = True, encrypted = False,
       protocolVersion = DTLS_1_2, cipherSuites = TLS_PSK_WITH_AES_128_GCM_SHA256,
       handshakeMessages = Map.empty, psk = pskValue, pskIdentity = pskIdentityValue,
       clientRandom = None, serverRandom = None, masterSecret = None, keyBlock = None,
       clientWriteKey = None, serverWriteKey = None, clientIV = None, serverIV = None,
       helloClientPacket = None, streamSeq = JUndef, readyToSend = None,
       connection = False, outputCancelled = False, inputCancelled = False,
       socketClosed = False, written = [], pendingWrites = [], emitted = [],
       sources = [], nextSourceId = 1, randomCalls = 0 \<rparr>"

section \<open>dtlsclient.js: building records\<close>

definition createRecordHeader :: "client \<Rightarrow> packet \<Rightarrow> int \<Rightarrow> int list" where
  "createRecordHeader s p len =
     uintToArray (cType p) 8 @
     uintToArray (protocolVersion s) 16 @
     uintToArray (epoch p) 16 @
     uintToArray (toInt (headerSeq p)) 48 @
     uintToArray len 16"

text \<open>
  The 28 random bytes of \<open>_createHandshakeClientHelloBody\<close>: the loop calls
  \<open>getRandomInt(0xFF)\<close> once per byte.
\<close>

fun randomBytes :: "env \<Rightarrow> nat \<Rightarrow> nat \<Rightarrow> int list" where
  "randomBytes e k 0 = []"
| "randomBytes e k (Suc n) = uintToArray (getRandomInt e k 0xFF) 8 @ randomBytes e (Suc k) n"

text \<open>
  \<open>_createHandshakeClientHelloBody(packet)\<close> returns the body, the packet (whose \<open>random\<close>
  it sets when absent) and the client (whose \<open>_clientRandom\<close> it sets then). A session id
  other than the number 0 calls \<open>this.bytesUpToArray\<close>, which the class does not have.
\<close>

definition createHandshakeClientHelloBody ::
  "env \<Rightarrow> client \<Rightarrow> packet \<Rightarrow> error + (jsarr \<times> packet \<times> client)" where
  "createHandshakeClientHelloBody e s p =
     (let time = nums (uintToArray 0 32);
          body1 = nums (uintToArray (protocolVersion s) 16) @ time;
          (rnd, p', s') =
            (case randomP p of
               None \<Rightarrow>
                 (let r = nums (randomBytes e (randomCalls s) 28)
                  in (r, p\<lparr>randomP := Some r\<rparr>,
                      s\<lparr>clientRandom := Some (time @ r), randomCalls := randomCalls s + 28\<rparr>))
             | Some r \<Rightarrow> (r, p, s));
          body2 = body1 @ rnd
      in if sessionId p = JNum 0 then
           (let body3 = body2 @ nums (uintToArray 0 8);
                body4 =
                  (case cookie p of
                     None \<Rightarrow> body3 @ [JNum 0]
                   | Some c \<Rightarrow> body3 @ nums (uintToArray (int (length c)) 8) @ c);
                cipherSuitesBytes = uintToArray (cipherSuites s) 16;
                body5 = body4 @ nums (uintToArray (int (length cipherSuitesBytes)) 16)
                              @ nums cipherSuitesBytes
            in Inr (body5 @ nums (uintToArray 1 8) @ nums (uintToArray 0 8), p', s'))
         else Inl TypeError)"

definition createHandshakeClientKeyExchangeBody :: "client \<Rightarrow> error + jsarr" where
  "createHandshakeClientKeyExchangeBody s =
     (case pskIdentity s of
        None \<Rightarrow> Inl TypeError
      | Some ident \<Rightarrow>
          Inr (nums (uintToArray (int (length ident)) 16) @ nums (stringToArray ident)))"

text \<open>
  \<open>P_hash(secret, seed)\<close>: the loop runs until 48 bytes are collected; it does not end
  when the HMAC given returns empty arrays. The first 48 elements are copied out.
\<close>

partial_function (option) P_hash_loop ::
  "env \<Rightarrow> jsarr \<Rightarrow> jsarr \<Rightarrow> jsarr \<Rightarrow> jsarr \<Rightarrow> jsarr option" where
  "P_hash_loop e secret seed res Ai =
     (if length res < DTLS_MASTER_SECRET_LENGTH
      then P_hash_loop e secret seed (res @ HMAC e secret (Ai @ seed)) (HMAC e secret Ai)
      else Some res)"

definition P_hash :: "env \<Rightarrow> jsarr \<Rightarrow> jsarr \<Rightarrow> jsarr option" where
  "P_hash e secret seed =
     map_option (take DTLS_MASTER_SECRET_LENGTH) (P_hash_loop e secret seed [] (HMAC e secret seed))"

definition PRF :: "env \<Rightarrow> jsarr \<Rightarrow> string \<Rightarrow> jsarr \<Rightarrow> jsarr option" where
  "PRF e secret label seed = P_hash e secret (nums (stringToArray label) @ seed)"

text \<open>
  The pre-master secret of \<open>_createHandshakeFinishedBody\<close>. \<open>this._psk.length / 2\<close> is
  used only as an argument of \<open>uintToArray\<close>, whose \<open>&\<close> truncates a fraction, hence the
  \<open>div\<close>. \<open>parseInt("0x" + a + b)\<close> reads the longest run of hexadecimal digits after the
  prefix: both characters, the first only (also when \<open>b\<close> is \<open>undefined\<close>, at the end of
  a string of odd length), or none, which gives \<open>NaN\<close>.
\<close>

definition hexDigit :: "char \<Rightarrow> int option" where
  "hexDigit c =
     (let n = (of_char c :: int)
      in if 48 \<le> n \<and> n \<le> 57 then Some (n - 48)
         else if 97 \<le> n \<and> n \<le> 102 then Some (n - 87)
         else if 65 \<le> n \<and> n \<le> 70 then Some (n - 55)
         else None)"

definition parseIntHexPair :: "char \<Rightarrow> char option \<Rightarrow> jsval" where
  "parseIntHexPair a b =
     (case hexDigit a of
        None \<Rightarrow> JNaN
      | Some x \<Rightarrow>
          (case b of
             None \<Rightarrow> JNum x
           | Some c \<Rightarrow> (case hexDigit c of None \<Rightarrow> JNum x | Some y \<Rightarrow> JNum (16 * x + y))))"

fun pskPairs :: "string \<Rightarrow> jsarr" where
  "pskPairs [] = []"
| "pskPairs [a] = [parseIntHexPair a None]"
| "pskPairs (a # b # s) = parseIntHexPair a (Some b) # pskPairs s"

definition preMasterSecret :: "string \<Rightarrow> jsarr" where
  "preMasterSecret k =
     nums (uintToArray (int (length k) div 2) 16) @
     nums (concat (replicate 16 (uintToArray 0 8))) @
     nums (uintToArray (int (length k) div 2) 16) @
     pskPairs k"

text \<open>
  \<open>a.slice(start, end)\<close>: a negative index counts from the end, and both are
  clamped to the array.
\<close>

definition sliceIndex :: "nat \<Rightarrow> int \<Rightarrow> nat" where
  "sliceIndex len i = (if i < 0 then nat (max (int len + i) 0) else min (nat i) len)"

definition slice :: "int \<Rightarrow> int \<Rightarrow> 'a list \<Rightarrow> 'a list" where
  "slice a b xs =
     (let from = sliceIndex (length xs) a; to = sliceIndex (length xs) b
      in take (to - from) (drop from xs))"

text \<open>
  \<open>a.concat(x)\<close> appends the elements of \<open>x\<close> when \<open>x\<close> is an array and the single
  element \<open>undefined\<close> when \<open>x\<close> is \<open>undefined\<close>.
\<close>

definition concatArg :: "jsarr option \<Rightarrow> jsarr" where
  "concatArg x = (case x of None \<Rightarrow> [JUndef] | Some a \<Rightarrow> a)"

text \<open>
  \<open>_createHandshakeFinishedBody\<close> derives the master secret, the key block and the four
  keys, stores them, and returns the first 12 bytes of the PRF over the hash of the
  transcript.
\<close>

definition createHandshakeFinishedBody :: "env \<Rightarrow> client \<Rightarrow> error + (jsarr \<times> client)" where
  "createHandshakeFinishedBody e s =
     (case psk s of
        None \<Rightarrow> Inl TypeError
      | Some k \<Rightarrow>
     (case clientRandom s of
        None \<Rightarrow> Inl TypeError
      | Some cr \<Rightarrow>
     (case PRF e (preMasterSecret k) ''master secret'' (cr @ concatArg (serverRandom s)) of
        None \<Rightarrow> Inl Diverges
      | Some ms \<Rightarrow>
     (case serverRandom s of
        None \<Rightarrow> Inl TypeError
      | Some sr \<Rightarrow>
     (case PRF e ms ''key expansion'' (sr @ cr) of
        None \<Rightarrow> Inl Diverges
      | Some kb \<Rightarrow>
     (let s' = s\<lparr> masterSecret := Some ms, keyBlock := Some kb,
                   clientWriteKey := Some (slice 0 16 kb),
                   serverWriteKey := Some (slice 16 32 kb),
                   clientIV := Some (slice 32 36 kb),
                   serverIV := Some (slice 36 40 kb) \<rparr>;
          handshakeMsg =
            concatArg (handshakeMessages s (JNum CLIENT_HELLO)) @
            concatArg (handshakeMessages s (JNum SERVER_HELLO)) @
            concatArg (handshakeMessages s (JNum SERVER_HELLO_DONE)) @
            concatArg (handshakeMessages s (JNum CLIENT_KEY_EXCHANGE))
      in case PRF e ms ''client finished'' (sha256 e handshakeMsg) of
           None \<Rightarrow> Inl Diverges
         | Some finishMsg \<Rightarrow> Inr (slice 0 12 finishMsg, s')))))))"

text \<open>
  \<open>_encryptMsg(packet, msg)\<close>: \<open>this._clientIV.concat\<close> throws when the IV is
  \<open>undefined\<close>; an exception of the encryption is caught and leaves the prefix
  \<open>epoch \<parallel> sequence\<close> alone.
\<close>

definition encryptMsg :: "env \<Rightarrow> client \<Rightarrow> packet \<Rightarrow> jsarr \<Rightarrow> error + jsarr" where
  "encryptMsg e s p msg =
     (let epochAndSeq = nums (uintToArray (epoch p) 16) @ nums (uintToArray (toInt (headerSeq p)) 48)
      in case clientIV s of
           None \<Rightarrow> Inl TypeError
         | Some iv \<Rightarrow>
             (let nonce = iv @ epochAndSeq;
                  aad = epochAndSeq @ nums (uintToArray (cType p) 8)
                          @ nums (uintToArray (protocolVersion s) 16)
                          @ nums (uintToArray (int (length msg)) 16);
                  encryptedMsg =
                    (case authenticatedEncryption e msg aad nonce (clientWriteKey s) of
                       None \<Rightarrow> []
                     | Some (cipherText, authenticationTag) \<Rightarrow> cipherText @ authenticationTag)
              in Inr (epochAndSeq @ encryptedMsg)))"

text \<open>
  \<open>_createHandshake(packet)\<close>: the body by handshake type (any other type returns the
  empty array at once), the 12-byte handshake header, encryption for a Finished, and the
  message stored in \<open>_handshakeMessages\<close> under the type.
\<close>

definition createHandshake ::
  "env \<Rightarrow> client \<Rightarrow> packet \<Rightarrow> error + (jsarr \<times> packet \<times> client)" where
  "createHandshake e s p =
     (let built =
            (if hType p = JNum CLIENT_HELLO then
               map_sum id Some (createHandshakeClientHelloBody e s p)
             else if hType p = JNum CLIENT_KEY_EXCHANGE then
               map_sum id (\<lambda>b. Some (b, p, s)) (createHandshakeClientKeyExchangeBody s)
             else if hType p = JNum FINISHED then
               map_sum id (\<lambda>(b, s'). Some (b, p, s')) (createHandshakeFinishedBody e s)
             else Inr None)
      in case built of
           Inl err \<Rightarrow> Inl err
         | Inr None \<Rightarrow> Inr ([], p, s)
         | Inr (Some (handshakeBody, p', s')) \<Rightarrow>
             (let handshakeMsg =
                    nums (uintToArray (toInt (hType p')) 8) @
                    nums (uintToArray (int (length handshakeBody)) 24) @
                    nums (uintToArray (toInt (handshakeSeq p')) 16) @
                    nums (uintToArray 0 24) @
                    nums (uintToArray (int (length handshakeBody)) 24) @
                    handshakeBody;
                  sealed =
                    (if hType p' = JNum FINISHED then encryptMsg e s' p' handshakeMsg
                     else Inr handshakeMsg)
              in case sealed of
                   Inl err \<Rightarrow> Inl err
                 | Inr m \<Rightarrow>
                     Inr (m, p', s'\<lparr>handshakeMessages := (handshakeMessages s')(hType p' \<mapsto> m)\<rparr>)))"

text \<open>\<open>_createPacket(packet)\<close>: the record header before the body; any other content type
  returns the empty array.\<close>

definition createPacket ::
  "env \<Rightarrow> client \<Rightarrow> packet \<Rightarrow> error + (jsarr \<times> packet \<times> client)" where
  "createPacket e s p =
     (let built =
            (if cType p = HANDSHAKE then map_sum id Some (createHandshake e s p)
             else if cType p = CHANGE_CIPHER_SPEC then Inr (Some ([JNum 1], p, s))
             else Inr None)
      in case built of
           Inl err \<Rightarrow> Inl err
         | Inr None \<Rightarrow> Inr ([], p, s)
         | Inr (Some (body, p', s')) \<Rightarrow>
             Inr (nums (createRecordHeader s' p' (int (length body))) @ body, p', s'))"

section \<open>dtlsclient.js: sending\<close>

text \<open>
  \<open>_sendMsg(msg, callback)\<close> hands the array to \<open>write_all_async\<close> of
  \<open>_outputStream\<close> with the output cancellable. \<open>_outputStream\<close> is \<open>null\<close> until the
  callback of \<open>connect_async\<close> has set it together with \<open>_connection\<close>: before that the
  call throws. An operation started on a cancelled cancellable fails at once: nothing is
  written and \<open>write_all_finish\<close> throws before the callback is reached. Cancelling makes
  the pending writes fail the same way.
\<close>

definition sendMsg :: "jsarr \<Rightarrow> callback option \<Rightarrow> client \<Rightarrow> error + client" where
  "sendMsg msg cb s =
     (if \<not> connection s then Inl TypeError
      else if outputCancelled s then Inr s
      else Inr (s\<lparr>written := written s @ [msg], pendingWrites := pendingWrites s @ [cb]\<rparr>))"

definition cancelOutput :: "client \<Rightarrow> client" where
  "cancelOutput s = s\<lparr>outputCancelled := True, pendingWrites := []\<rparr>"

text \<open>
  \<open>_sendHandshakeRequest\<close> is an \<open>async\<close> method without \<open>await\<close>: it runs to its end
  when called, and an exception rejects its promise instead of reaching the caller. The
  client is then left as the statements before the exception made it: when \<open>_sendMsg\<close>
  throws, the packet has been built and \<open>_helloClientPacket\<close> is not assigned.
\<close>

definition helloPacket :: packet where
  "helloPacket =
     \<lparr> cType = HANDSHAKE, hType = JNum CLIENT_HELLO, epoch = 0, headerSeq = JNum 0,
       sessionId = JNum 0, cookie = None, handshakeSeq = JNum 0, randomP = None \<rparr>"

definition sendHandshakeRequest :: "env \<Rightarrow> client \<Rightarrow> client" where
  "sendHandshakeRequest e s =
     (let s1 = s\<lparr>encrypted := False\<rparr>
      in case createPacket e s1 helloPacket of
           Inl err \<Rightarrow> s1
         | Inr (msg, packet, s2) \<Rightarrow>
             (case sendMsg msg None s2 of
                Inl err \<Rightarrow> s2
              | Inr s3 \<Rightarrow> s3\<lparr>helloClientPacket := Some packet\<rparr>))"

text \<open>
  \<open>_initiateHandshake(attemptCounter)\<close> resets the cancellable, gives up when the counter
  is above 2, and otherwise sends the request and arms a 200 ms timeout whose closure
  keeps the counter. Its callers are the callback of \<open>connect_async\<close>, after it has set
  the connection, the streams and the cancellables, and the timeouts it has armed itself.
\<close>

definition initiateHandshake :: "env \<Rightarrow> nat \<Rightarrow> client \<Rightarrow> client" where
  "initiateHandshake e attemptCounter s =
     (let s0 = s\<lparr>outputCancelled := False\<rparr>
      in if attemptCounter > 2 then s0
         else (let s1 = sendHandshakeRequest e s0;
                   timerId = nextSourceId s1
               in s1\<lparr> sources := sources s1 @ [(timerId, 200, attemptCounter)],
                       nextSourceId := timerId + 1,
                       timers := timers s1 @ [timerId] \<rparr>))"

text \<open>The closure given to \<open>GLib.timeout_add\<close>; it returns \<open>SOURCE_REMOVE\<close>.\<close>

definition timeoutCallback :: "env \<Rightarrow> nat \<Rightarrow> nat \<Rightarrow> client \<Rightarrow> client" where
  "timeoutCallback e timerId attemptCounter s =
     (let s1 = s\<lparr>timers := removeFromArray e (timers s) timerId\<rparr>
      in if handshakeInProgress s1
         then initiateHandshake e (attemptCounter + 1) (cancelOutput s1)
         else s1)"

text \<open>The callback of \<open>connect_async\<close>, once the connection is there.\<close>

definition connectBridge :: "env \<Rightarrow> client \<Rightarrow> client" where
  "connectBridge e s =
     initiateHandshake e 0 (s\<lparr>connection := True, outputCancelled := False, inputCancelled := False\<rparr>)"

definition clearTimers :: "client \<Rightarrow> client" where
  "clearTimers s =
     s\<lparr> sources := filter (\<lambda>(i, ms, c). \<not> (i \<noteq> 0 \<and> i \<in> set (timers s))) (sources s),
        timers := [] \<rparr>"

definition closeBridge :: "client \<Rightarrow> client" where
  "closeBridge s =
     (let s1 = clearTimers s
      in if \<not> connection s1 then s1
         else (cancelOutput s1)\<lparr> inputCancelled := True, socketClosed := True,
                                  emitted := emitted s1 @ [Disconnected] \<rparr>)"

definition sendHandshakeFinished :: "env \<Rightarrow> client \<Rightarrow> error + client" where
  "sendHandshakeFinished e s =
     (let responsePacket =
            \<lparr> cType = HANDSHAKE, hType = JNum FINISHED, epoch = 1, headerSeq = JNum 0,
              sessionId = JUndef, cookie = None, handshakeSeq = JNum 3, randomP = None \<rparr>;
          s1 = s\<lparr>encrypted := True, handshakeInProgress := False\<rparr>
      in case createPacket e s1 responsePacket of
           Inl err \<Rightarrow> Inl err
         | Inr (msg, packet, s2) \<Rightarrow> sendMsg msg None s2)"

definition sendHandshakeCipherSpec :: "env \<Rightarrow> client \<Rightarrow> error + client" where
  "sendHandshakeCipherSpec e s =
     (let responsePacket =
            \<lparr> cType = CHANGE_CIPHER_SPEC, hType = JUndef, epoch = 0, headerSeq = JNum 3,
              sessionId = JUndef, cookie = None, handshakeSeq = JNum 3, randomP = None \<rparr>
      in case createPacket e s responsePacket of
           Inl err \<Rightarrow> Inl err
         | Inr (msg, packet, s2) \<Rightarrow> sendMsg msg (Some SendHandshakeFinished) s2)"

definition sendKeyExchange :: "env \<Rightarrow> client \<Rightarrow> error + client" where
  "sendKeyExchange e s =
     (let responsePacket =
            \<lparr> cType = HANDSHAKE, hType = JNum CLIENT_KEY_EXCHANGE, epoch = 0, headerSeq = JNum 2,
              sessionId = JUndef, cookie = None, handshakeSeq = JNum 2, randomP = None \<rparr>
      in case createPacket e s responsePacket of
           Inl err \<Rightarrow> Inl err
         | Inr (msg, packet, s2) \<Rightarrow> sendMsg msg (Some SendHandshakeCipherSpec) s2)"

text \<open>The completion of the oldest pending write: \<open>write_all_finish\<close>, then the callback.\<close>

definition writeCompletes :: "env \<Rightarrow> client \<Rightarrow> error + client" where
  "writeCompletes e s =
     (case pendingWrites s of
        [] \<Rightarrow> Inr s
      | cb # rest \<Rightarrow>
          (let s1 = s\<lparr>pendingWrites := rest\<rparr>
           in case cb of
                None \<Rightarrow> Inr s1
              | Some SendHandshakeCipherSpec \<Rightarrow> sendHandshakeCipherSpec e s1
              | Some SendHandshakeFinished \<Rightarrow> sendHandshakeFinished e s1))"

section \<open>dtlsclient.js: the application data channel\<close>

text \<open>
  \<open>sendEncrypted(cleartext)\<close> returns the boolean and the client. The packet has the three
  properties \<open>cType\<close>, \<open>epoch\<close> and \<open>headerSeq\<close>. The record is written as \<open>_sendMsg\<close>
  writes, without a callback.
\<close>

definition dataPacket :: "jsval \<Rightarrow> packet" where
  "dataPacket seq =
     \<lparr> cType = APPLICATION_DATA, hType = JUndef, epoch = 1, headerSeq = seq,
       sessionId = JUndef, cookie = None, handshakeSeq = JUndef, randomP = None \<rparr>"

definition sendEncrypted :: "env \<Rightarrow> jsarr \<Rightarrow> client \<Rightarrow> error + (bool \<times> client)" where
  "sendEncrypted e cleartext s =
     (let s1 = s\<lparr>readyToSend := Some False\<rparr>
      in if encrypted s1 = False then Inr (False, s1)
         else (let s2 = s1\<lparr>streamSeq := js_incr (streamSeq s1)\<rparr>;
                   packet = dataPacket (streamSeq s2)
               in case encryptMsg e s2 packet cleartext of
                    Inl err \<Rightarrow> Inl err
                  | Inr encryptedMsg \<Rightarrow>
                      map_sum id (Pair True)
                        (sendMsg (nums (createRecordHeader s2 packet (int (length encryptedMsg)))
                                    @ encryptedMsg) None s2)))"

section \<open>dtlsclient.js: receiving\<close>

text \<open>
  \<open>popNextN(msg, n)\<close> shifts \<open>n\<close> elements out of \<open>msg\<close>: the first \<open>n\<close> elements,
  then \<open>undefined\<close> for each shift of the emptied array. The pair is the array returned
  and what \<open>msg\<close> holds afterwards. A count that is not positive runs no iteration.
\<close>

definition popNextN :: "jsarr \<Rightarrow> int \<Rightarrow> jsarr \<times> jsarr" where
  "popNextN msg n =
     (take (nat n) msg @ replicate (nat n - length msg) JUndef, drop (nat n) msg)"

definition emptyRpacket :: rpacket where
  "emptyRpacket =
     \<lparr> rcType = 0, rprotocolVersion = 0, repoch = 0, rheaderSeq = 0, rhType = None,
       rhandshakeSeq = None, rfragmentOffset = None, rfragmentLength = None,
       rprotocolVersionH = None, rcookieLegth = None, rcookie = None, rtime = None,
       rrandom = None, rsessionIdLength = None, rsessionId = None, rcipherSuite = None \<rparr>"

text \<open>
  \<open>_readHandshakePacket(msg, hType)\<close> adds the properties of the handshake body to the
  packet; a ServerHello sets \<open>_serverRandom\<close>.
\<close>

definition readHandshakePacket :: "client \<Rightarrow> rpacket \<Rightarrow> jsarr \<Rightarrow> int \<Rightarrow> rpacket \<times> client" where
  "readHandshakePacket s packet msg hTypeValue =
     (if hTypeValue = HELLO_VERIFY_REQUEST then
        (let (v, m1) = popNextN msg 2;
             (l, m2) = popNextN m1 1;
             (c, m3) = popNextN m2 (arrayToUint l)
         in (packet\<lparr> rprotocolVersionH := Some (arrayToUint v),
                     rcookieLegth := Some (arrayToUint l), rcookie := Some c \<rparr>, s))
      else if hTypeValue = SERVER_HELLO then
        (let (v, m1) = popNextN msg 2;
             (t, m2) = popNextN m1 4;
             (r, m3) = popNextN m2 28;
             (l, m4) = popNextN m3 1;
             (i, m5) = popNextN m4 (arrayToUint l);
             (c, m6) = popNextN m5 2
         in (packet\<lparr> rprotocolVersionH := Some (arrayToUint v), rtime := Some t,
                     rrandom := Some r, rsessionIdLength := Some (arrayToUint l),
                     rsessionId := Some i, rcipherSuite := Some (arrayToUint c) \<rparr>,
             s\<lparr>serverRandom := Some (t @ r)\<rparr>))
      else (packet, s))"

text \<open>
  \<open>_decryptMsg(packet, msg)\<close>: \<open>this._serverWriteKey.length\<close> and
  \<open>this._serverIV.concat\<close> throw on \<open>undefined\<close>.
\<close>

definition decryptMsg :: "env \<Rightarrow> client \<Rightarrow> int \<Rightarrow> jsarr \<Rightarrow> error + jsarr option" where
  "decryptMsg e s cTypeValue msg =
     (case serverWriteKey s of
        None \<Rightarrow> Inl TypeError
      | Some key \<Rightarrow>
     (case serverIV s of
        None \<Rightarrow> Inl TypeError
      | Some iv \<Rightarrow>
          (let epochAndSeq = slice 0 8 msg;
               tag = slice (int (length msg) - int (length key)) (int (length msg)) msg;
               nonce = iv @ epochAndSeq;
               encryptedMsg = slice 8 (int (length msg) - int (length key)) msg;
               aad = epochAndSeq @ nums (uintToArray cTypeValue 8)
                       @ nums (uintToArray (protocolVersion s) 16)
                       @ nums (uintToArray (int (length encryptedMsg)) 16)
           in Inr (authenticatedDecryption e encryptedMsg aad nonce tag key))))"

text \<open>
  \<open>_readPacket(msg)\<close> reads one record. \<open>recordBody\<close> is the body it pops after the 13
  bytes of the header and \<open>recordRest\<close> what it leaves in \<open>msg\<close>. A handshake record is
  decrypted when \<open>_encrypted\<close> is set, and stored in the transcript under its first byte
  while \<open>_handshakeInProgress\<close> is set. A decryption that yields no array makes
  \<open>bodyMsg[0]\<close> or \<open>msg.shift\<close> throw.
\<close>

definition recordLength :: "jsarr \<Rightarrow> int" where
  "recordLength msg = arrayToUint (fst (popNextN (drop 11 msg) 2))"

definition recordBody :: "jsarr \<Rightarrow> jsarr" where
  "recordBody msg = fst (popNextN (drop 13 msg) (recordLength msg))"

definition recordRest :: "jsarr \<Rightarrow> jsarr" where
  "recordRest msg = snd (popNextN (drop 13 msg) (recordLength msg))"

definition firstElement :: "jsarr \<Rightarrow> jsval" where
  "firstElement a = (case a of [] \<Rightarrow> JUndef | x # _ \<Rightarrow> x)"

definition readPacket :: "env \<Rightarrow> client \<Rightarrow> jsarr \<Rightarrow> error + (rpacket \<times> client)" where
  "readPacket e s msg =
     (let (c, m1) = popNextN msg 1;
          (v, m2) = popNextN m1 2;
          (ep, m3) = popNextN m2 2;
          (sq, m4) = popNextN m3 6;
          packet = emptyRpacket\<lparr> rcType := arrayToUint c, rprotocolVersion := arrayToUint v,
                                  repoch := arrayToUint ep, rheaderSeq := arrayToUint sq \<rparr>;
          bodyLength = recordLength msg;
          bodyMsg = recordBody msg
      in if rcType packet = HANDSHAKE then
           (case (if encrypted s then decryptMsg e s (rcType packet) bodyMsg
                  else Inr (Some bodyMsg)) of
              Inl err \<Rightarrow> Inl err
            | Inr None \<Rightarrow> Inl TypeError
            | Inr (Some body) \<Rightarrow>
                (let s1 = (if handshakeInProgress s
                           then s\<lparr>handshakeMessages :=
                                    (handshakeMessages s)(firstElement body \<mapsto> slice 0 bodyLength body)\<rparr>
                           else s);
                     (h, b1) = popNextN body 1;
                     (hl, b2) = popNextN b1 3;
                     (hs, b3) = popNextN b2 2;
                     (fo, b4) = popNextN b3 3;
                     (fl, b5) = popNextN b4 3;
                     (handshakeBody, b6) = popNextN b5 (arrayToUint hl);
                     packet1 = packet\<lparr> rhType := Some (arrayToUint h),
                                        rhandshakeSeq := Some (arrayToUint hs),
                                        rfragmentOffset := Some (arrayToUint fo),
                                        rfragmentLength := Some (arrayToUint fl) \<rparr>
                 in Inr (readHandshakePacket s1 packet1 handshakeBody (arrayToUint h))))
         else Inr (packet, s))"

text \<open>
  \<open>_handleResponseHandshake(packet)\<close>. For a HelloVerifyRequest \<open>responsePacket\<close> is the
  object \<open>_helloClientPacket\<close> itself, so the assignments change that field; when the
  field is \<open>undefined\<close> the first assignment throws.
\<close>

definition handleResponseHandshake :: "env \<Rightarrow> client \<Rightarrow> rpacket \<Rightarrow> error + client" where
  "handleResponseHandshake e s packet =
     (if rhType packet = Some SERVER_HELLO then Inr s
      else if rhType packet = Some SERVER_HELLO_DONE then sendKeyExchange e s
      else if rhType packet = Some HELLO_VERIFY_REQUEST then
        (case helloClientPacket s of
           None \<Rightarrow> Inl TypeError
         | Some hello \<Rightarrow>
             (let responsePacket = hello\<lparr> headerSeq := JNum 1, handshakeSeq := JNum 1,
                                           cookie := rcookie packet \<rparr>
              in case createPacket e s responsePacket of
                   Inl err \<Rightarrow> Inl err
                 | Inr (msg, packet', s1) \<Rightarrow>
                     map_sum id (\<lambda>s2. s2\<lparr>helloClientPacket := Some packet'\<rparr>)
                       (sendMsg msg None s1)))
      else if rhType packet = Some FINISHED then
        Inr (s\<lparr> encrypted := True, handshakeInProgress := False, streamSeq := JNum 0,
                emitted := emitted s @ [Connected] \<rparr>)
      else Inr s)"

definition handleResponse :: "env \<Rightarrow> client \<Rightarrow> rpacket \<Rightarrow> error + client" where
  "handleResponse e s packet =
     (if rcType packet = HANDSHAKE then handleResponseHandshake e s packet
      else if rcType packet = CHANGE_CIPHER_SPEC then Inr s
      else if rcType packet = ALERT then Inr (closeBridge s)
      else Inr s)"

text \<open>
  The loop of \<open>_readResponse\<close> over the bytes of one fill: a packet is read and handled
  until the array is empty. Every non-empty array gets shorter.
\<close>

function readResponseLoop :: "env \<Rightarrow> client \<Rightarrow> jsarr \<Rightarrow> error + client" where
  "readResponseLoop e s msg =
     (if msg = [] then Inr s
      else case readPacket e s msg of
             Inl err \<Rightarrow> Inl err
           | Inr (packet, s1) \<Rightarrow>
               (case handleResponse e s1 packet of
                  Inl err \<Rightarrow> Inl err
                | Inr s2 \<Rightarrow> readResponseLoop e s2 (recordRest msg)))"
  by pat_completeness auto
termination
  by (relation "measure (\<lambda>(e, s, msg). length msg)") (auto simp: recordRest_def popNextN_def)

section \<open>Events\<close>

text \<open>
  What happens to a client after its construction: the connection is established, an armed
  timeout fires, the oldest pending write completes, a datagram is read (bytes as
  \<open>read_byte\<close> gives them), or the application calls \<open>sendEncrypted\<close> or \<open>closeBridge\<close>.
\<close>

datatype event =
    Connects
  | TimerFires nat
  | WriteCompletes
  | DataArrives "8 word list"
  | CallSendEncrypted "8 word list"
  | CallCloseBridge

definition findSource :: "nat \<Rightarrow> (nat \<times> nat \<times> nat) list \<Rightarrow> (nat \<times> nat \<times> nat) option" where
  "findSource tid srcs = find (\<lambda>(i, ms, c). i = tid) srcs"

definition timerFires :: "env \<Rightarrow> nat \<Rightarrow> client \<Rightarrow> client" where
  "timerFires e tid s =
     (case findSource tid (sources s) of
        None \<Rightarrow> s
      | Some (i, ms, c) \<Rightarrow>
          (let s1 = timeoutCallback e i c s
           in s1\<lparr>sources := filter (\<lambda>(j, ms', c'). j \<noteq> tid) (sources s1)\<rparr>))"

definition dataArrives :: "env \<Rightarrow> 8 word list \<Rightarrow> client \<Rightarrow> error + client" where
  "dataArrives e bytes s =
     (if socketClosed s \<or> inputCancelled s then Inr s
      else readResponseLoop e s (nums (map uint bytes)))"

definition step :: "env \<Rightarrow> client \<Rightarrow> event \<Rightarrow> error + client" where
  "step e s ev =
     (case ev of
        Connects \<Rightarrow> Inr (connectBridge e s)
      | TimerFires tid \<Rightarrow> Inr (timerFires e tid s)
      | WriteCompletes \<Rightarrow> writeCompletes e s
      | DataArrives bytes \<Rightarrow> dataArrives e bytes s
      | CallSendEncrypted bytes \<Rightarrow> map_sum id snd (sendEncrypted e (nums (map uint bytes)) s)
      | CallCloseBridge \<Rightarrow> Inr (closeBridge s))"

fun run :: "env \<Rightarrow> client \<Rightarrow> event list \<Rightarrow> error + client" where
  "run e s [] = Inr s"
| "run e s (ev # evs) = (case step e s ev of Inl err \<Rightarrow> Inl err | Inr s' \<Rightarrow> run e s' evs)"

text \<open>
  No response arrives: the armed timeouts fire one after the other until none is armed.
  The result is the list of the sources that fired and the client.
\<close>

partial_function (option) fireTimers ::
  "env \<Rightarrow> (nat \<times> nat \<times> nat) list \<Rightarrow> client \<Rightarrow> ((nat \<times> nat \<times> nat) list \<times> client) option" where
  "fireTimers e fired s =
     (case sources s of
        [] \<Rightarrow> Some (fired, s)
      | src # rest \<Rightarrow> fireTimers e (fired @ [src]) (timerFires e (fst src) s))"

section \<open>The AES block cipher (the source file whose name is unknown)\<close>

text \<open>
  A byte of a key, of a block or of the state is an \<open>8 word\<close>. The state is the array of
  four rows that \<open>encrypt\<close> and \<open>decrypt\<close> build; the functions that change it in place
  return the new state, and a loop over the cells is a \<open>fold\<close> of the assignment over the
  index pairs in the order of the loop.
\<close>

type_synonym byte = "8 word"
type_synonym state = "byte list list"

definition SBox :: "byte list list" where
  "SBox =
    [[0x63, 0x7c, 0x77, 0x7b, 0xf2, 0x6b, 0x6f, 0xc5, 0x30, 0x01, 0x67, 0x2b, 0xfe, 0xd7, 0xab, 0x76],
     [0xca, 0x82, 0xc9, 0x7d, 0xfa, 0x59, 0x47, 0xf0, 0xad, 0xd4, 0xa2, 0xaf, 0x9c, 0xa4, 0x72, 0xc0],
     [0xb7, 0xfd, 0x93, 0x26, 0x36, 0x3f, 0xf7, 0xcc, 0x34, 0xa5, 0xe5, 0xf1, 0x71, 0xd8, 0x31, 0x15],
     [0x04, 0xc7, 0x23, 0xc3, 0x18, 0x96, 0x05, 0x9a, 0x07, 0x12, 0x80, 0xe2, 0xeb, 0x27, 0xb2, 0x75],
     [0x09, 0x83, 0x2c, 0x1a, 0x1b, 0x6e, 0x5a, 0xa0, 0x52, 0x3b, 0xd6, 0xb3, 0x29, 0xe3, 0x2f, 0x84],
     [0x53, 0xd1, 0x00, 0xed, 0x20, 0xfc, 0xb1, 0x5b, 0x6a, 0xcb, 0xbe, 0x39, 0x4a, 0x4c, 0x58, 0xcf],
     [0xd0, 0xef, 0xaa, 0xfb, 0x43, 0x4d, 0x33, 0x85, 0x45, 0xf9, 0x02, 0x7f, 0x50, 0x3c, 0x9f, 0xa8],
     [0x51, 0xa3, 0x40, 0x8f, 0x92, 0x9d, 0x38, 0xf5, 0xbc, 0xb6, 0xda, 0x21, 0x10, 0xff, 0xf3, 0xd2],
     [0xcd, 0x0c, 0x13, 0xec, 0x5f, 0x97, 0x44, 0x17, 0xc4, 0xa7, 0x7e, 0x3d, 0x64, 0x5d, 0x19, 0x73],
     [0x60, 0x81, 0x4f, 0xdc, 0x22, 0x2a, 0x90, 0x88, 0x46, 0xee, 0xb8, 0x14, 0xde, 0x5e, 0x0b, 0xdb],
     [0xe0, 0x32, 0x3a, 0x0a, 0x49, 0x06, 0x24, 0x5c, 0xc2, 0xd3, 0xac, 0x62, 0x91, 0x95, 0xe4, 0x79],
     [0xe7, 0xc8, 0x37, 0x6d, 0x8d, 0xd5, 0x4e, 0xa9, 0x6c, 0x56, 0xf4, 0xea, 0x65, 0x7a, 0xae, 0x08],
     [0xba, 0x78, 0x25, 0x2e, 0x1c, 0xa6, 0xb4, 0xc6, 0xe8, 0xdd, 0x74, 0x1f, 0x4b, 0xbd, 0x8b, 0x8a],
     [0x70, 0x3e, 0xb5, 0x66, 0x48, 0x03, 0xf6, 0x0e, 0x61, 0x35, 0x57, 0xb9, 0x86, 0xc1, 0x1d, 0x9e],
     [0xe1, 0xf8, 0x98, 0x11, 0x69, 0xd9, 0x8e, 0x94, 0x9b, 0x1e, 0x87, 0xe9, 0xce, 0x55, 0x28, 0xdf],
     [0x8c, 0xa1, 0x89, 0x0d, 0xbf, 0xe6, 0x42, 0x68, 0x41, 0x99, 0x2d, 0x0f, 0xb0, 0x54, 0xbb, 0x16]]"

definition InvSBox :: "byte list list" where
  "InvSBox =
    [[0x52, 0x09, 0x6a, 0xd5, 0x30, 0x36, 0xa5, 0x38, 0xbf, 0x40, 0xa3, 0x9e, 0x81, 0xf3, 0xd7, 0xfb],
     [0x7c, 0xe3, 0x39, 0x82, 0x9b, 0x2f, 0xff, 0x87, 0x34, 0x8e, 0x43, 0x44, 0xc4, 0xde, 0xe9, 0xcb],
     [0x54, 0x7b, 0x94, 0x32, 0xa6, 0xc2, 0x23, 0x3d, 0xee, 0x4c, 0x95, 0x0b, 0x42, 0xfa, 0xc3, 0x4e],
     [0x08, 0x2e, 0xa1, 0x66, 0x28, 0xd9, 0x24, 0xb2, 0x76, 0x5b, 0xa2, 0x49, 0x6d, 0x8b, 0xd1, 0x25],
     [0x72, 0xf8, 0xf6, 0x64, 0x86, 0x68, 0x98, 0x16, 0xd4, 0xa4, 0x5c, 0xcc, 0x5d, 0x65, 0xb6, 0x92],
     [0x6c, 0x70, 0x48, 0x50, 0xfd, 0xed, 0xb9, 0xda, 0x5e, 0x15, 0x46, 0x57, 0xa7, 0x8d, 0x9d, 0x84],
     [0x90, 0xd8, 0xab, 0x00, 0x8c, 0xbc, 0xd3, 0x0a, 0xf7, 0xe4, 0x58, 0x05, 0xb8, 0xb3, 0x45, 0x06],
     [0xd0, 0x2c, 0x1e, 0x8f, 0xca, 0x3f, 0x0f, 0x02, 0xc1, 0xaf, 0xbd, 0x03, 0x01, 0x13, 0x8a, 0x6b],
     [0x3a, 0x91, 0x11, 0x41, 0x4f, 0x67, 0xdc, 0xea, 0x97, 0xf2, 0xcf, 0xce, 0xf0, 0xb4, 0xe6, 0x73],
     [0x96, 0xac, 0x74, 0x22, 0xe7, 0xad, 0x35, 0x85, 0xe2, 0xf9, 0x37, 0xe8, 0x1c, 0x75, 0xdf, 0x6e],
     [0x47, 0xf1, 0x1a, 0x71, 0x1d, 0x29, 0xc5, 0x89, 0x6f, 0xb7, 0x62, 0x0e, 0xaa, 0x18, 0xbe, 0x1b],
     [0xfc, 0x56, 0x3e, 0x4b, 0xc6, 0xd2, 0x79, 0x20, 0x9a, 0xdb, 0xc0, 0xfe, 0x78, 0xcd, 0x5a, 0xf4],
     [0x1f, 0xdd, 0xa8, 0x33, 0x88, 0x07, 0xc7, 0x31, 0xb1, 0x12, 0x10, 0x59, 0x27, 0x80, 0xec, 0x5f],
     [0x60, 0x51, 0x7f, 0xa9, 0x19, 0xb5, 0x4a, 0x0d, 0x2d, 0xe5, 0x7a, 0x9f, 0x93, 0xc9, 0x9c, 0xef],
     [0xa0, 0xe0, 0x3b, 0x4d, 0xae, 0x2a, 0xf5, 0xb0, 0xc8, 0xeb, 0xbb, 0x3c, 0x83, 0x53, 0x99, 0x61],
     [0x17, 0x2b, 0x04, 0x7e, 0xba, 0x77, 0xd6, 0x26, 0xe1, 0x69, 0x14, 0x63, 0x55, 0x21, 0x0c, 0x7d]]"

definition Rcon :: "byte list list" where
  "Rcon =
    [[0x00, 0x00, 0x00, 0x00],
     [0x01, 0x00, 0x00, 0x00],
     [0x02, 0x00, 0x00, 0x00],
     [0x04, 0x00, 0x00, 0x00],
     [0x08, 0x00, 0x00, 0x00],
     [0x10, 0x00, 0x00, 0x00],
     [0x20, 0x00, 0x00, 0x00],
     [0x40, 0x00, 0x00, 0x00],
     [0x80, 0x00, 0x00, 0x00],
     [0x1b, 0x00, 0x00, 0x00],
     [0x36, 0x00, 0x00, 0x00]]"

definition setCell :: "state \<Rightarrow> nat \<Rightarrow> nat \<Rightarrow> byte \<Rightarrow> state" where
  "setCell st i j v = st[i := (st ! i)[j := v]]"

definition cells :: "(nat \<times> nat) list" where
  "cells = concat (map (\<lambda>i. map (Pair i) [0..<4]) [0..<4])"

text \<open>
  A read past the end of a round-key word gives \<open>undefined\<close>, which \<open>^\<close> takes as 0.
\<close>

definition nth0 :: "byte list \<Rightarrow> nat \<Rightarrow> byte" where
  "nth0 xs i = (if i < length xs then xs ! i else 0)"

text \<open>
  \<open>addRoundKey(state, roundKeyArray, offset)\<close>: \<open>roundKeyArray[offset + j][i]\<close> throws when
  the word \<open>offset + j\<close> is missing.
\<close>

definition addRoundKey :: "state \<Rightarrow> byte list list \<Rightarrow> nat \<Rightarrow> error + state" where
  "addRoundKey st roundKeyArray offset =
     (if offset + 3 < length roundKeyArray
      then Inr (fold (\<lambda>(i, j) s. setCell s i j (s ! i ! j XOR nth0 (roundKeyArray ! (offset + j)) i))
                  cells st)
      else Inl TypeError)"

text \<open>The table lookup \<open>T[(x & 0xF0) >> 4][x & 0x0F]\<close>; both indices are below 16.\<close>

definition lookup :: "byte list list \<Rightarrow> byte \<Rightarrow> byte" where
  "lookup T x = T ! unat (drop_bit 4 (x AND 0xF0)) ! unat (x AND 0x0F)"

definition subBytes :: "state \<Rightarrow> state" where
  "subBytes st = fold (\<lambda>(i, j) s. setCell s i j (lookup SBox (s ! i ! j))) cells st"

definition invSubBytes :: "state \<Rightarrow> state" where
  "invSubBytes st = fold (\<lambda>(i, j) s. setCell s i j (lookup InvSBox (s ! i ! j))) cells st"

definition subWord :: "byte list \<Rightarrow> byte list" where
  "subWord v = fold (\<lambda>i w. w[i := lookup SBox (w ! i)]) [0..<4] v"

definition rotWord :: "byte list \<Rightarrow> byte list" where
  "rotWord v = (let tmp = v ! 0 in v[0 := v ! 1, 1 := v ! 2, 2 := v ! 3, 3 := tmp])"

text \<open>
  The inner \<open>while (true)\<close> of \<open>shiftRows\<close> and \<open>invShiftRows\<close> on row \<open>i\<close>: it leaves
  through \<open>break\<close> when \<open>l\<close> comes back to \<open>j\<close>, with the row and the last \<open>k\<close>.
\<close>

partial_function (option) shiftCycle :: "nat \<Rightarrow> nat \<Rightarrow> nat \<Rightarrow> byte list \<Rightarrow> (nat \<times> byte list) option" where
  "shiftCycle i j k row =
     (if (if k + i \<ge> 4 then k + i - 4 else k + i) = j then Some (k, row)
      else shiftCycle i j (if k + i \<ge> 4 then k + i - 4 else k + i)
             (row[k := row ! (if k + i \<ge> 4 then k + i - 4 else k + i)]))"

text \<open>The body of the loop over \<open>j\<close>: \<open>tmp = state[i][j]\<close>, the cycle, \<open>state[i][k] = tmp\<close>.\<close>

definition shiftFrom :: "nat \<Rightarrow> nat \<Rightarrow> state \<Rightarrow> state option" where
  "shiftFrom i j st =
     (case shiftCycle i j j (st ! i) of
        None \<Rightarrow> None
      | Some (k, row) \<Rightarrow> Some (st[i := row[k := st ! i ! j]]))"

fun foldOption :: "('a \<Rightarrow> 'b \<Rightarrow> 'b option) \<Rightarrow> 'a list \<Rightarrow> 'b \<Rightarrow> 'b option" where
  "foldOption f [] s = Some s"
| "foldOption f (x # xs) s = (case f x s of None \<Rightarrow> None | Some s' \<Rightarrow> foldOption f xs s')"

text \<open>
  The bound \<open>((i - 1) % 2) + 1\<close> of the loops over \<open>j\<close>. The remainder of JavaScript has
  the sign of the dividend: \<open>(0 - 1) % 2 = -1\<close>, so the bound is 0 for row 0.
\<close>

definition jsRem :: "int \<Rightarrow> int \<Rightarrow> int" where
  "jsRem a b = sgn a * (\<bar>a\<bar> mod \<bar>b\<bar>)"

definition shiftBound :: "nat \<Rightarrow> nat" where
  "shiftBound i = nat (jsRem (int i - 1) 2 + 1)"

definition shiftRows :: "state \<Rightarrow> state option" where
  "shiftRows st =
     foldOption (\<lambda>(i, j). shiftFrom i j)
       (concat (map (\<lambda>i. map (Pair i) [0..<shiftBound i]) [1..<4])) st"

definition invShiftRows :: "state \<Rightarrow> state option" where
  "invShiftRows st =
     foldOption (\<lambda>(i, j). shiftFrom i j)
       (concat (map (\<lambda>i. map (Pair i) (rev [shiftBound i..<4])) (rev [0..<4]))) st"

text \<open>
  \<open>finiteFieldMultiplication(value0, value1)\<close> on the 32-bit integers of the bitwise
  operators: eight rounds of conditional \<open>^\<close>, doubling with reduction by \<open>0x11b\<close>, and
  \<open>>>\<close>.
\<close>

fun ffmLoop :: "nat \<Rightarrow> int32 \<Rightarrow> int32 \<Rightarrow> int32 \<Rightarrow> int32" where
  "ffmLoop 0 value0 value1 result = result"
| "ffmLoop (Suc n) value0 value1 result =
     ffmLoop n
       (if value0 AND 0x80 \<noteq> 0 then push_bit 1 value0 XOR 0x11b else push_bit 1 value0)
       (signed_drop_bit 1 value1)
       (if value1 AND 1 \<noteq> 0 then result XOR value0 else result)"

definition finiteFieldMultiplication :: "int32 \<Rightarrow> int32 \<Rightarrow> int32" where
  "finiteFieldMultiplication value0 value1 = ffmLoop 8 value0 value1 0"

text \<open>
  A product stored into the state: for a constant below 256 and a byte the result is
  below 256 (lemma \<open>finiteFieldMultiplication_byte\<close>), so the conversion loses nothing.
\<close>

definition gmul :: "int32 \<Rightarrow> byte \<Rightarrow> byte" where
  "gmul c x = ucast (finiteFieldMultiplication c (ucast x))"

text \<open>
  \<open>mixColumns\<close> and \<open>invMixColumns\<close> fill \<open>tmp\<close> from the state, column by column, and
  copy \<open>tmp\<close> into the state cell by cell.
\<close>

definition mixTmp :: "state \<Rightarrow> state" where
  "mixTmp st =
     [map (\<lambda>i. gmul 0x02 (st ! 0 ! i) XOR gmul 0x03 (st ! 1 ! i) XOR st ! 2 ! i XOR st ! 3 ! i) [0..<4],
      map (\<lambda>i. st ! 0 ! i XOR gmul 0x02 (st ! 1 ! i) XOR gmul 0x03 (st ! 2 ! i) XOR st ! 3 ! i) [0..<4],
      map (\<lambda>i. st ! 0 ! i XOR st ! 1 ! i XOR gmul 0x02 (st ! 2 ! i) XOR gmul 0x03 (st ! 3 ! i)) [0..<4],
      map (\<lambda>i. gmul 0x03 (st ! 0 ! i) XOR st ! 1 ! i XOR st ! 2 ! i XOR gmul 0x02 (st ! 3 ! i)) [0..<4]]"

definition invMixTmp :: "state \<Rightarrow> state" where
  "invMixTmp st =
     [map (\<lambda>i. gmul 0x0e (st ! 0 ! i) XOR gmul 0x0b (st ! 1 ! i) XOR gmul 0x0d (st ! 2 ! i) XOR gmul 0x09 (st ! 3 ! i)) [0..<4],
      map (\<lambda>i. gmul 0x09 (st ! 0 ! i) XOR gmul 0x0e (st ! 1 ! i) XOR gmul 0x0b (st ! 2 ! i) XOR gmul 0x0d (st ! 3 ! i)) [0..<4],
      map (\<lambda>i. gmul 0x0d (st ! 0 ! i) XOR gmul 0x09 (st ! 1 ! i) XOR gmul 0x0e (st ! 2 ! i) XOR gmul 0x0b (st ! 3 ! i)) [0..<4],
      map (\<lambda>i. gmul 0x0b (st ! 0 ! i) XOR gmul 0x0d (st ! 1 ! i) XOR gmul 0x09 (st ! 2 ! i) XOR gmul 0x0e (st ! 3 ! i)) [0..<4]]"

definition mixColumns :: "state \<Rightarrow> state" where
  "mixColumns st = fold (\<lambda>(i, j) s. setCell s i j (mixTmp st ! i ! j)) cells st"

definition invMixColumns :: "state \<Rightarrow> state" where
  "invMixColumns st =
     fold (\<lambda>(j, i) s. setCell s i j (invMixTmp st ! i ! j)) cells st"

text \<open>
  \<open>keyExpansion(roundLimit, key)\<close>. The first loop appends a new word at every fourth
  byte and pushes the byte onto the word \<open>i div 4\<close>. The second loop writes word \<open>i\<close>,
  which is the next index of \<open>result\<close> when the key length is a multiple of 4, from the
  words \<open>i - 1\<close> and \<open>i - nK\<close>; \<open>Rcon[i div nK]\<close> throws when the table has no such row.
  The function is private and called with the round limits 11, 13 and 15 for keys of
  16, 24 and 32 bytes.
\<close>

definition keyWords :: "byte list \<Rightarrow> byte list list" where
  "keyWords key =
     fold (\<lambda>(i, b) r. (let r1 = (if i mod 4 = 0 then r @ [[]] else r)
                        in r1[i div 4 := r1 ! (i div 4) @ [b]]))
       (enumerate 0 key) []"

definition setWord :: "byte list list \<Rightarrow> nat \<Rightarrow> byte list \<Rightarrow> byte list list" where
  "setWord result i w = (if i < length result then result[i := w] else result @ [w])"

function keyExpansionLoop :: "nat \<Rightarrow> nat \<Rightarrow> nat \<Rightarrow> byte list list \<Rightarrow> error + byte list list" where
  "keyExpansionLoop roundLimit nK i result =
     (if i < 4 * roundLimit then
        (if i mod nK = 0 \<and> \<not> i div nK < length Rcon then Inl TypeError
         else
           (let tmp = result ! (i - 1);
                tmp1 =
                  (if i mod nK = 0
                   then map (\<lambda>j. subWord (rotWord tmp) ! j XOR Rcon ! (i div nK) ! j) [0..<4]
                   else if 6 < nK \<and> i mod nK = 4 then subWord tmp
                   else tmp)
            in keyExpansionLoop roundLimit nK (i + 1)
                 (setWord result i (map (\<lambda>j. result ! (i - nK) ! j XOR tmp1 ! j) [0..<4]))))
      else Inr result)"
  by pat_completeness auto
termination
  by (relation "measure (\<lambda>(roundLimit, nK, i, result). 4 * roundLimit - i)") auto

definition keyExpansion :: "nat \<Rightarrow> byte list \<Rightarrow> error + byte list list" where
  "keyExpansion roundLimit key = keyExpansionLoop roundLimit (length key div 4) (length key div 4) (keyWords key)"

text \<open>
  Loading the state: \<open>state[i div 4].push(input[(i * 4) % 15])\<close> for \<open>i\<close> below 15, then
  \<open>input[15]\<close>. A byte missing from the input is \<open>undefined\<close>, which every later
  operation takes as 0. The output is read column by column.
\<close>

definition loadState :: "byte list \<Rightarrow> state" where
  "loadState input =
     (let st = fold (\<lambda>i s. s[i div 4 := s ! (i div 4) @ [nth0 input ((i * 4) mod 15)]])
                 [0..<15] [[], [], [], []]
      in st[3 := st ! 3 @ [nth0 input 15]])"

definition storeState :: "state \<Rightarrow> byte list" where
  "storeState st = fold (\<lambda>(i, j) out. out @ [st ! j ! i]) cells []"

definition roundLimitOf :: "byte list \<Rightarrow> error + nat" where
  "roundLimitOf key =
     (if length key = 16 then Inr 11
      else if length key = 24 then Inr 13
      else if length key = 32 then Inr 15
      else Inl (IllegalKeyLength (length key)))"

function encryptRounds :: "byte list list \<Rightarrow> nat \<Rightarrow> nat \<Rightarrow> state \<Rightarrow> error + state" where
  "encryptRounds w roundLimit round st =
     (if round < roundLimit then
        (case shiftRows (subBytes st) of
           None \<Rightarrow> Inl Diverges
         | Some st1 \<Rightarrow>
             (case addRoundKey (if round + 1 < roundLimit then mixColumns st1 else st1) w (round * 4) of
                Inl err \<Rightarrow> Inl err
              | Inr st2 \<Rightarrow> encryptRounds w roundLimit (round + 1) st2))
      else Inr st)"
  by pat_completeness auto
termination
  by (relation "measure (\<lambda>(w, roundLimit, round, st). roundLimit - round)") auto

definition encrypt :: "byte list \<Rightarrow> byte list \<Rightarrow> error + byte list" where
  "encrypt input key =
     (case roundLimitOf key of
        Inl err \<Rightarrow> Inl err
      | Inr roundLimit \<Rightarrow>
     (case keyExpansion roundLimit key of
        Inl err \<Rightarrow> Inl err
      | Inr w \<Rightarrow>
     (case addRoundKey (loadState input) w 0 of
        Inl err \<Rightarrow> Inl err
      | Inr st \<Rightarrow> map_sum id storeState (encryptRounds w roundLimit 1 st))))"

text \<open>
  The loop of \<open>decrypt\<close> runs \<open>round\<close> from \<open>roundLimit - 2\<close> down to 0; the first argument
  of \<open>decryptRounds\<close> is \<open>round + 1\<close>.
\<close>

fun decryptRounds :: "byte list list \<Rightarrow> nat \<Rightarrow> state \<Rightarrow> error + state" where
  "decryptRounds w 0 st = Inr st"
| "decryptRounds w (Suc round) st =
     (case invShiftRows st of
        None \<Rightarrow> Inl Diverges
      | Some st1 \<Rightarrow>
          (case addRoundKey (invSubBytes st1) w (round * 4) of
             Inl err \<Rightarrow> Inl err
           | Inr st2 \<Rightarrow> decryptRounds w round (if round > 0 then invMixColumns st2 else st2)))"

definition decrypt :: "byte list \<Rightarrow> byte list \<Rightarrow> error + byte list" where
  "decrypt input key =
     (case roundLimitOf key of
        Inl err \<Rightarrow> Inl err
      | Inr roundLimit \<Rightarrow>
     (case keyExpansion roundLimit key of
        Inl err \<Rightarrow> Inl err
      | Inr w \<Rightarrow>
     (case addRoundKey (loadState input) w ((roundLimit - 1) * 4) of
        Inl err \<Rightarrow> Inl err
      | Inr st \<Rightarrow> map_sum id storeState (decryptRounds w (roundLimit - 1) st))))"

section \<open>Reference definitions\<close>

text \<open>
  The value of a byte string read big-endian, starting from an accumulator, and the
  big-endian encoding of a number in \<open>k\<close> bytes. They state what the integer fields of
  the record header are meant to hold; the source has no such function.
\<close>

fun bigEndianValue :: "int \<Rightarrow> int list \<Rightarrow> int" where
  "bigEndianValue acc [] = acc"
| "bigEndianValue acc (x # xs) = bigEndianValue (acc * 256 + x) xs"

fun bigEndian :: "nat \<Rightarrow> int \<Rightarrow> int list" where
  "bigEndian 0 n = []"
| "bigEndian (Suc k) n = bigEndian k (n div 256) @ [n mod 256]"

text \<open>
  The pre-master secret as the specification words it (the structure of RFC 4279): the
  length of the zero block in two bytes, a zero block as long as the key, the length of
  the key in two bytes, the key bytes read from the hexadecimal pairs.
\<close>

definition premasterRFC4279 :: "string \<Rightarrow> jsarr" where
  "premasterRFC4279 k =
     (let keyBytes = pskPairs k; n = int (length keyBytes)
      in nums (bigEndian 2 n) @ replicate (length keyBytes) (JNum 0) @ nums (bigEndian 2 n) @ keyBytes)"

text \<open>
  Stand-ins for the collaborators, to run the client on concrete inputs: a hash and an
  HMAC that return 32 zero bytes, an encryption that returns the plain text with a tag of
  16 zero bytes, a decryption that returns the cipher text, and a random source whose
  \<open>k\<close>-th number is \<open>k\<close>. \<open>rejectingEnv\<close> differs in its decryption, which always fails.
\<close>

definition sampleEnv :: env where
  "sampleEnv =
     \<lparr> HMAC = (\<lambda>secret msg. replicate 32 (JNum 0)),
       sha256 = (\<lambda>msg. replicate 32 (JNum 0)),
       authenticatedEncryption = (\<lambda>msg aad nonce key. Some (msg, replicate 16 (JNum 0))),
       authenticatedDecryption = (\<lambda>msg aad nonce tag key. Some msg),
       removeFromArray = (\<lambda>xs x. removeAll x xs),
       mathRandom = (\<lambda>k. k) \<rparr>"


text \<open>
  The fields of a record on the wire, by offset: content type at 0, epoch at 3, sequence
  number at 5, body length at 11; in a handshake record the message type at 13 and the
  message sequence at 17; in a ClientHello the 32 bytes of the random at 27, the length
  of the session id at 59 and the length-prefixed cookie at 60.
\<close>

definition recordField :: "nat \<Rightarrow> nat \<Rightarrow> jsarr \<Rightarrow> jsarr" where
  "recordField offset n msg = take n (drop offset msg)"

definition isClientHello :: "jsarr \<Rightarrow> bool" where
  "isClientHello msg \<longleftrightarrow>
     recordField 0 1 msg = [JNum HANDSHAKE] \<and> recordField 13 1 msg = [JNum CLIENT_HELLO]"

text \<open>
  \<open>helloSent s r\<close>: the client holds the ClientHello packet of its last request, the
  packet has the 28 random bytes \<open>r\<close>, and \<open>_clientRandom\<close> is the four time bytes
  (zero) followed by \<open>r\<close>.
\<close>

definition helloSent :: "client \<Rightarrow> jsarr \<Rightarrow> bool" where
  "helloSent s r \<longleftrightarrow>
     (case helloClientPacket s of
        None \<Rightarrow> False
      | Some hello \<Rightarrow>
          cType hello = HANDSHAKE \<and> hType hello = JNum CLIENT_HELLO \<and>
          sessionId hello = JNum 0 \<and> epoch hello = 0 \<and> randomP hello = Some r) \<and>
     length r = 28 \<and> clientRandom s = Some (nums [0, 0, 0, 0] @ r)"

text \<open>
  Records a server can send, as bytes on the wire: a HelloVerifyRequest with the cookie
  \<open>aa bb\<close>; a ServerHello (random bytes 1 to 32, empty session id, the PSK suite); a
  ServerHelloDone; a Finished in the clear with an empty body; and a Finished at epoch 1 as
  \<open>sampleEnv\<close> decrypts it (eight bytes of epoch and sequence number, the handshake
  message, sixteen bytes of tag).
\<close>

definition sampleHelloVerifyRequest :: "8 word list" where
  "sampleHelloVerifyRequest =
     [22, 0xfe, 0xfd, 0, 0, 0, 0, 0, 0, 0, 0, 0, 17,
      3, 0, 0, 5, 0, 0, 0, 0, 0, 0, 0, 5,
      0xfe, 0xfd, 2, 0xaa, 0xbb]"

definition sampleServerHello :: "8 word list" where
  "sampleServerHello =
     [22, 0xfe, 0xfd, 0, 0, 0, 0, 0, 0, 0, 0, 0, 50,
      2, 0, 0, 38, 0, 0, 0, 0, 0, 0, 0, 38,
      0xfe, 0xfd] @ map of_nat [1..<33] @ [0, 0x00, 0xa8, 0]"

definition sampleServerHelloDone :: "8 word list" where
  "sampleServerHelloDone =
     [22, 0xfe, 0xfd, 0, 0, 0, 0, 0, 0, 0, 1, 0, 12,
      14, 0, 0, 0, 0, 1, 0, 0, 0, 0, 0, 0]"


definition sampleServerFinished :: "8 word list" where
  "sampleServerFinished =
     [22, 0xfe, 0xfd, 0, 1, 0, 0, 0, 0, 0, 0, 0, 36,
      0, 1, 0, 0, 0, 0, 0, 0,
      20, 0, 0, 0, 0, 2, 0, 0, 0, 0, 0, 0] @ replicate 16 0"

text \<open>
  The events of a handshake up to the client's own Finished: the connection, the
  ServerHello and the ServerHelloDone, then the completion of the three writes
  (ClientHello, ClientKeyExchange, ChangeCipherSpec), the last of which sends the
  Finished.
\<close>

definition handshakeToClientFinished :: "event list" where
  "handshakeToClientFinished =
     [Connects, DataArrives sampleServerHello, DataArrives sampleServerHelloDone,
      WriteCompletes, WriteCompletes, WriteCompletes]"

chapter \<open>Theorems\<close>

declare P_hash_loop.simps [code]
declare shiftCycle.simps [code]
declare fireTimers.simps [code]

section \<open>The bitwise operators on integers\<close>

lemma js_and_int: "js_and a b = signed_take_bit 31 (a AND b)"
  unfolding js_and_def by (rule bit_eqI) (auto simp: bit_simps)

lemma js_or_int: "js_or a b = signed_take_bit 31 (a OR b)"
  unfolding js_or_def by (rule bit_eqI) (auto simp: bit_simps)

lemma js_shl_int: "js_shl a k = signed_take_bit 31 (push_bit (k mod 32) a)"
  unfolding js_shl_def by (rule bit_eqI) (auto simp: bit_simps)

lemma js_shr_int: "js_shr a k = drop_bit (k mod 32) (signed_take_bit 31 a)"
  by (simp add: js_shr_def sint_signed_drop_bit_eq sint_sbintrunc')

lemma mask_FF: "(0xFF::int) = mask 8"
  by (simp add: mask_eq_exp_minus_1)

lemma mask_FF00: "(0xFF00::int) = push_bit 8 (mask 8)"
  by (simp add: mask_eq_exp_minus_1 push_bit_eq_mult)

lemma mask_FF0000: "(0xFF0000::int) = push_bit 16 (mask 8)"
  by (simp add: mask_eq_exp_minus_1 push_bit_eq_mult)

lemma mask_FF000000: "(0xFF000000::int) = push_bit 24 (mask 8)"
  by (simp add: mask_eq_exp_minus_1 push_bit_eq_mult)

lemma mask_FF00000000: "(0xFF00000000::int) = push_bit 32 (mask 8)"
  by (simp add: mask_eq_exp_minus_1 push_bit_eq_mult)

text \<open>The byte each mask-and-shift of \<open>uintToArray\<close> extracts, for any integer.\<close>

lemma byte0: "js_and n 0xFF = n mod 256"
proof -
  have "js_and n 0xFF = take_bit 8 n"
    unfolding js_and_int mask_FF by (rule bit_eqI) (auto simp: bit_simps)
  then show ?thesis by (simp add: take_bit_eq_mod)
qed

lemma byte1: "js_shr (js_and n 0xFF00) 8 = n div 2 ^ 8 mod 256"
proof -
  have "js_shr (js_and n 0xFF00) 8 = take_bit 8 (drop_bit 8 n)"
    unfolding js_and_int js_shr_int mask_FF00 by (rule bit_eqI) (auto simp: bit_simps)
  then show ?thesis by (simp add: take_bit_eq_mod drop_bit_eq_div)
qed

lemma byte2: "js_shr (js_and n 0xFF0000) 16 = n div 2 ^ 16 mod 256"
proof -
  have "js_shr (js_and n 0xFF0000) 16 = take_bit 8 (drop_bit 16 n)"
    unfolding js_and_int js_shr_int mask_FF0000 by (rule bit_eqI) (auto simp: bit_simps)
  then show ?thesis by (simp add: take_bit_eq_mod drop_bit_eq_div)
qed

lemma byte3: "js_shr (js_and n 0xFF000000) 24 = signed_take_bit 7 (n div 2 ^ 24)"
proof -
  have "js_shr (js_and n 0xFF000000) 24 = signed_take_bit 7 (drop_bit 24 n)"
    unfolding js_and_int js_shr_int mask_FF000000 by (rule bit_eqI) (auto simp: bit_simps min_def)
  then show ?thesis by (simp add: drop_bit_eq_div)
qed

lemma byte3_small:
  assumes "0 \<le> n" "n < 2 ^ 31"
  shows "js_shr (js_and n 0xFF000000) 24 = n div 2 ^ 24"
proof -
  have "0 \<le> n div 2 ^ 24" "n div 2 ^ 24 < 2 ^ 7"
    using assms by simp_all
  then show ?thesis
    by (simp add: byte3 signed_take_bit_int_eq_self)
qed

lemma byte45: "js_shr (js_and n 0xFF00000000) k = 0"
proof -
  have "js_and n 0xFF00000000 = 0"
    unfolding js_and_int mask_FF00000000 by (rule bit_eqI) (auto simp: bit_simps)
  then show ?thesis by (simp add: js_shr_int)
qed

lemma shl_or:
  assumes "0 \<le> a" "a < 2 ^ 23" "0 \<le> b" "b < 256"
  shows "js_or (js_shl a 8) b = a * 256 + b"
proof -
  have b: "take_bit 8 b = b"
    using assms by (simp add: take_bit_int_eq_self)
  have r: "0 \<le> a * 256" "a * 256 < 2 ^ 31" "a * 256 + b < 2 ^ 31"
    using assms by simp_all
  have "push_bit 8 a OR b = concat_bit 8 b a"
    by (simp add: concat_bit_def b or.commute)
  also have "\<dots> = a * 256 + b"
    by (simp add: concat_bit_eq b push_bit_eq_mult)
  finally have o: "push_bit 8 a OR b = a * 256 + b" .
  have "js_shl a 8 = push_bit 8 a"
    using r by (simp add: js_shl_int push_bit_eq_mult signed_take_bit_int_eq_self)
  then show ?thesis
    using r assms by (simp add: js_or_int o signed_take_bit_int_eq_self)
qed

text \<open>
  \<open>uintToArray\<close> in closed form. The two leading bytes of a 48-bit field are always 0.
\<close>

lemma uintToArray_eq:
  "uintToArray n len =
     (if len \<ge> 48 then [0] else []) @
     (if len \<ge> 40 then [0] else []) @
     (if len \<ge> 32 then [signed_take_bit 7 (n div 2 ^ 24)] else []) @
     (if len \<ge> 24 then [n div 2 ^ 16 mod 256] else []) @
     (if len \<ge> 16 then [n div 2 ^ 8 mod 256] else []) @
     (if len \<ge> 8 then [n mod 256] else [])"
  unfolding uintToArray_def by (simp only: byte0 byte1 byte2 byte3 byte45)

lemma uintToArray_8: "uintToArray n 8 = [n mod 256]"
  by (simp add: uintToArray_eq)

lemma uintToArray_16: "uintToArray n 16 = [n div 256 mod 256, n mod 256]"
  by (simp add: uintToArray_eq)

lemma uintToArray_24: "uintToArray n 24 = [n div 65536 mod 256, n div 256 mod 256, n mod 256]"
  by (simp add: uintToArray_eq)

lemma uintToArray_32:
  "uintToArray n 32 = [signed_take_bit 7 (n div 16777216), n div 65536 mod 256, n div 256 mod 256, n mod 256]"
  by (simp add: uintToArray_eq)

lemma uintToArray_48:
  "uintToArray n 48 =
     [0, 0, signed_take_bit 7 (n div 16777216), n div 65536 mod 256, n div 256 mod 256, n mod 256]"
  by (simp add: uintToArray_eq)

lemma length_uintToArray:
  "length (uintToArray n len) =
     (if len \<ge> 48 then 6 else if len \<ge> 40 then 5 else if len \<ge> 32 then 4
      else if len \<ge> 24 then 3 else if len \<ge> 16 then 2 else if len \<ge> 8 then 1 else 0)"
  by (simp add: uintToArray_def)

text \<open>
  \<open>arrayToUint\<close> on bytes: the big-endian value, as long as it stays below \<open>2^31\<close>.
\<close>

lemma bigEndianValue_mono:
  "0 \<le> acc \<Longrightarrow> \<forall>x\<in>set xs. 0 \<le> x \<Longrightarrow> acc \<le> bigEndianValue acc xs"
proof (induction xs arbitrary: acc)
  case Nil
  then show ?case by simp
next
  case (Cons x xs)
  have "acc \<le> acc * 256 + x" using Cons.prems by simp
  also have "\<dots> \<le> bigEndianValue (acc * 256 + x) xs"
    using Cons.prems by (intro Cons.IH) simp_all
  finally show ?case by simp
qed

lemma arrayToUint_loop_bytes:
  assumes "0 \<le> acc" "\<forall>x\<in>set xs. 0 \<le> x \<and> x < 256" "bigEndianValue acc xs < 2 ^ 31"
  shows "arrayToUint_loop acc (nums xs) = bigEndianValue acc xs"
  using assms
proof (induction xs arbitrary: acc)
  case Nil
  then show ?case by (simp add: nums_def)
next
  case (Cons x xs)
  have x: "0 \<le> x" "x < 256" using Cons.prems by simp_all
  have "acc * 256 + x \<le> bigEndianValue (acc * 256 + x) xs"
    using Cons.prems x by (intro bigEndianValue_mono) simp_all
  then have "acc * 256 + x < 2 ^ 31" using Cons.prems(3) by simp
  then have "acc < 2 ^ 23" using x Cons.prems(1) by simp
  then have step: "js_or (js_shl acc 8) x = acc * 256 + x"
    using Cons.prems(1) x by (simp add: shl_or)
  have "arrayToUint_loop (acc * 256 + x) (nums xs) = bigEndianValue (acc * 256 + x) xs"
    using Cons.prems x by (intro Cons.IH) simp_all
  then show ?case by (simp add: nums_def step toInt_def)
qed

section \<open>Claims about the integer encoding\<close>

lemma bigEndian_1: "bigEndian 1 n = [n mod 256]"
  by (simp add: numeral_eq_Suc)

lemma bigEndian_2: "bigEndian 2 n = [n div 256 mod 256, n mod 256]"
  by (simp add: numeral_eq_Suc)

lemma bigEndian_6_small:
  assumes "0 \<le> n" "n < 2 ^ 31"
  shows "bigEndian 6 n = [0, 0, n div 16777216, n div 65536 mod 256, n div 256 mod 256, n mod 256]"
proof -
  have a: "n div 16777216 mod 256 = n div 16777216" "n div 4294967296 = 0" "n div 1099511627776 = 0"
    using assms by simp_all
  show ?thesis
    by (simp add: numeral_eq_Suc zdiv_zmult2_eq[symmetric] a)
qed

lemma bytes3_value: "65536 * (n div 65536) + n div 256 mod 256 * 256 + n mod 256 = (n::int)"
proof -
  have a: "n = 256 * (n div 256) + n mod 256" by simp
  have b: "n div 256 = 256 * (n div 256 div 256) + n div 256 mod 256" by simp
  have c: "n div 256 div 256 = n div 65536" by (simp add: zdiv_zmult2_eq[symmetric])
  show ?thesis using a b c by linarith
qed

lemma bigEndian_small:
  assumes "0 \<le> n" and "n < 2 ^ 24" and "L \<in> {8, 16, 24, 32, 40, 48}"
  shows "uintToArray n L = bigEndian (nat (L div 8)) n"
proof -
  have top: "signed_take_bit 7 (n div 16777216) = 0" "n div 16777216 = 0"
      "n div 4294967296 = 0" "n div 1099511627776 = 0"
    using assms(1,2) by simp_all
  show ?thesis
    using assms(3)
    by (auto simp: uintToArray_eq top numeral_eq_Suc zdiv_zmult2_eq[symmetric])
qed

text \<open>
  C10, as amended. With \<open>n\<close> below \<open>2^24\<close> and below \<open>2^L\<close>, \<open>uintToArray n L\<close> has
  \<open>L / 8\<close> elements, each of them a byte (from 0 to 255); they are the big-endian digits
  of \<open>n\<close> in base 256, and \<open>arrayToUint\<close> reads \<open>n\<close> back from them.
\<close>

theorem uintToArray_roundtrip:
  assumes "0 \<le> n" and "n < 2 ^ 24" and "L \<in> {8, 16, 24, 32, 40, 48}" and "n < 2 ^ nat L"
  shows "length (uintToArray n L) = nat (L div 8) \<and>
         list_all (\<lambda>x. 0 \<le> x \<and> x < 256) (uintToArray n L) \<and>
         uintToArray n L = bigEndian (nat (L div 8)) n \<and>
         arrayToUint (nums (uintToArray n L)) = n"
proof -
  have len: "length (uintToArray n L) = nat (L div 8)"
    using assms(3) by (auto simp: length_uintToArray)
  have top: "signed_take_bit 7 (n div 16777216) = 0" "n div 16777216 = 0"
    using assms(1,2) by simp_all
  have bytes: "\<forall>x\<in>set (uintToArray n L). 0 \<le> x \<and> x < 256"
    using assms(3) by (auto simp: uintToArray_eq top)
  have val: "bigEndianValue 0 (uintToArray n L) = n"
    using assms by (auto simp: uintToArray_eq top bytes3_value)
  have "arrayToUint_loop 0 (nums (uintToArray n L)) = bigEndianValue 0 (uintToArray n L)"
    using bytes val assms(2) by (intro arrayToUint_loop_bytes) simp_all
  then have "arrayToUint (nums (uintToArray n L)) = n"
    by (simp add: val arrayToUint_def)
  moreover have "list_all (\<lambda>x. 0 \<le> x \<and> x < 256) (uintToArray n L)"
    using bytes by (simp add: list_all_iff)
  ultimately show ?thesis
    using len bigEndian_small [OF assms(1-3)] by blast
qed

theorem uintToArray_roundtrip_witness:
  "length (uintToArray 0x123456 48) = 6 \<and>
   list_all (\<lambda>x. 0 \<le> x \<and> x < 256) (uintToArray 0x123456 48) \<and>
   uintToArray 0x123456 48 = [0, 0, 0, 0x12, 0x34, 0x56] \<and>
   uintToArray 0x123456 48 = bigEndian 6 0x123456 \<and>
   arrayToUint (nums (uintToArray 0x123456 48)) = 0x123456"
proof -
  have e: "uintToArray 0x123456 48 = [0, 0, 0, 0x12, 0x34, 0x56]"
    by (simp add: uintToArray_48)
  have t: "length (uintToArray 0x123456 48) = nat (48 div 8) \<and>
      list_all (\<lambda>x. 0 \<le> x \<and> x < 256) (uintToArray 0x123456 48) \<and>
      uintToArray 0x123456 48 = bigEndian (nat (48 div 8)) 0x123456 \<and>
      arrayToUint (nums (uintToArray 0x123456 48)) = 0x123456"
    by (rule uintToArray_roundtrip) simp_all
  have n: "nat (48 div 8) = 6" by simp
  show ?thesis
    using t e unfolding n by blast
qed

text \<open>
  C10 as stated fails at \<open>n = 256\<close>, \<open>L = 8\<close>: one byte holds \<open>n mod 256\<close>.
\<close>

theorem uintToArray_roundtrip_counterexample:
  "(0::int) \<le> 256 \<and> (256::int) < 2 ^ 24 \<and> (8::int) \<in> {8, 16, 24, 32, 40, 48} \<and>
   arrayToUint (nums (uintToArray 256 8)) \<noteq> 256"
  by (simp add: uintToArray_8 arrayToUint_def nums_def toInt_def js_or_def js_shl_def)

section \<open>The record header\<close>

lemma length_createRecordHeader: "length (createRecordHeader s p len) = 13"
  by (simp add: createRecordHeader_def length_uintToArray)

lemma createRecordHeader_bytes:
  assumes "headerSeq p = JNum q" and "0 \<le> q" and "q < 2 ^ 31"
  shows "createRecordHeader s p len =
           bigEndian 1 (cType p) @ bigEndian 2 (protocolVersion s) @ bigEndian 2 (epoch p) @
           bigEndian 6 q @ bigEndian 2 len"
proof -
  have top: "signed_take_bit 7 (q div 16777216) = q div 16777216"
    using assms(2,3) by (simp add: signed_take_bit_int_eq_self)
  show ?thesis
    using assms
    by (simp add: createRecordHeader_def toInt_def uintToArray_8 uintToArray_16
        uintToArray_48 bigEndian_1 bigEndian_2 bigEndian_6_small top)
qed

text \<open>
  C6, as amended. The record header has 13 bytes: content type (1), protocol version (2),
  epoch (2), sequence number (6) and body length (2), each big-endian, in this order; the
  sequence number is encoded in full when it is below \<open>2^31\<close>.
\<close>

theorem createRecordHeader_layout:
  assumes "protocolVersion s = DTLS_1_2" and "headerSeq p = JNum q" and "0 \<le> q" and "q < 2 ^ 31"
  shows "createRecordHeader s p len =
           bigEndian 1 (cType p) @ bigEndian 2 0xfefd @ bigEndian 2 (epoch p) @
           bigEndian 6 q @ bigEndian 2 len \<and>
         length (createRecordHeader s p len) = 13"
proof (intro conjI)
  show "createRecordHeader s p len =
           bigEndian 1 (cType p) @ bigEndian 2 0xfefd @ bigEndian 2 (epoch p) @
           bigEndian 6 q @ bigEndian 2 len"
    using createRecordHeader_bytes [OF assms(2-4), of s len] assms(1)
    by (simp add: DTLS_1_2_def)
  show "length (createRecordHeader s p len) = 13"
    by (rule length_createRecordHeader)
qed

theorem createRecordHeader_layout_witness:
  "createRecordHeader (init None None) helloPacket 54 =
     [22, 0xfe, 0xfd, 0, 0, 0, 0, 0, 0, 0, 0, 0, 54]
   \<and> length (createRecordHeader (init None None) helloPacket 54) = 13"
  using createRecordHeader_layout [of "init None None" helloPacket 0 54]
  by (simp add: init_def helloPacket_def HANDSHAKE_def bigEndian_1 bigEndian_2 bigEndian_6_small)

text \<open>C6 as stated fails: the header of the first ClientHello has 13 bytes, not 7.\<close>

theorem createRecordHeader_length_counterexample:
  "length (createRecordHeader (init None None) helloPacket 54) \<noteq> 7"
  by (simp add: length_createRecordHeader)

text \<open>Every record the client builds begins with this header.\<close>

lemma createPacket_begins_with_header:
  assumes "createPacket e s p = Inr (msg, p', s')" and "cType p = HANDSHAKE \<or> cType p = CHANGE_CIPHER_SPEC"
  shows "\<exists>body. msg = nums (createRecordHeader s' p' (int (length body))) @ body"
proof (cases "cType p = HANDSHAKE")
  case True
  then show ?thesis
    using assms(1) by (cases "createHandshake e s p") (auto simp: createPacket_def)
next
  case False
  then have "msg = nums (createRecordHeader s' p' (int (length [JNum 1]))) @ [JNum 1]"
    using assms by (auto simp: createPacket_def)
  then show ?thesis by blast
qed

lemma sendEncrypted_begins_with_header:
  assumes "sendEncrypted e cleartext s = Inr (True, s')" and "\<not> outputCancelled s"
  shows "\<exists>body. last (written s') =
           nums (createRecordHeader s' (dataPacket (streamSeq s')) (int (length body))) @ body"
  using assms
  by (auto simp: sendEncrypted_def sendMsg_def Let_def createRecordHeader_def
      split: sum.splits if_splits)

section \<open>The pre-master secret\<close>

lemma pskPairs_length_even: "even (length k) \<Longrightarrow> length (pskPairs k) = length k div 2"
  by (induction k rule: pskPairs.induct) simp_all

text \<open>
  For a key of 32 hexadecimal characters (16 bytes), the only length for which the zero
  block of 16 bytes has the length of the key, the source builds the structure of
  RFC 4279.
\<close>

lemma preMasterSecret_16_bytes:
  assumes "length k = 32"
  shows "preMasterSecret k = premasterRFC4279 k"
proof -
  have "length (pskPairs k) = 16"
    using assms by (simp add: pskPairs_length_even)
  then show ?thesis
    using assms
    by (simp add: preMasterSecret_def premasterRFC4279_def Let_def uintToArray_8 uintToArray_16
        bigEndian_2 nums_def replicate_append_same numeral_eq_Suc)
qed

text \<open>
  C5 at a key of two bytes: the source writes the length 2, then 16 zero bytes where the
  claim has 2.
\<close>

theorem preMasterSecret_two_byte_key:
  "preMasterSecret ''0102'' =
     nums ([0, 2] @ replicate 16 0 @ [0, 2] @ [1, 2]) \<and>
   premasterRFC4279 ''0102'' = nums ([0, 2] @ replicate 2 0 @ [0, 2] @ [1, 2]) \<and>
   preMasterSecret ''0102'' \<noteq> premasterRFC4279 ''0102''"
  by (simp add: preMasterSecret_def premasterRFC4279_def Let_def uintToArray_8 uintToArray_16
        bigEndian_2 nums_def parseIntHexPair_def hexDigit_def numeral_eq_Suc)

section \<open>The ClientHello\<close>

lemma uintToArray_0_32: "uintToArray 0 32 = [0, 0, 0, 0]"
  by (simp add: uintToArray_32)

lemma uintToArray_0_24: "uintToArray 0 24 = [0, 0, 0]"
  by (simp add: uintToArray_24)

lemma createRecordHeader_cong:
  "protocolVersion s' = protocolVersion s \<Longrightarrow> cType p' = cType p \<Longrightarrow> epoch p' = epoch p \<Longrightarrow>
   headerSeq p' = headerSeq p \<Longrightarrow> createRecordHeader s' p' len = createRecordHeader s p len"
  by (simp add: createRecordHeader_def)

lemma createPacket_clientHello:
  assumes "cType p = HANDSHAKE" and "hType p = JNum CLIENT_HELLO" and "sessionId p = JNum 0"
  shows "createPacket e s p =
    (let r = (case randomP p of None \<Rightarrow> nums (randomBytes e (randomCalls s) 28) | Some r \<Rightarrow> r);
         body = nums (uintToArray (protocolVersion s) 16) @ nums [0, 0, 0, 0] @ r @ [JNum 0] @
                (case cookie p of None \<Rightarrow> [JNum 0] | Some c \<Rightarrow> JNum (int (length c) mod 256) # c) @
                nums ([0, 2] @ uintToArray (cipherSuites s) 16 @ [1, 0]);
         hmsg = nums ([1] @ uintToArray (int (length body)) 24 @
                      uintToArray (toInt (handshakeSeq p)) 16 @ [0, 0, 0] @
                      uintToArray (int (length body)) 24) @ body;
         s1 = (case randomP p of
                 None \<Rightarrow> s\<lparr>clientRandom := Some (nums [0, 0, 0, 0] @ r),
                            randomCalls := randomCalls s + 28\<rparr>
               | Some r' \<Rightarrow> s)
     in Inr (nums (createRecordHeader s p (int (length hmsg))) @ hmsg,
             p\<lparr>randomP := Some r\<rparr>,
             s1\<lparr>handshakeMessages := (handshakeMessages s)(JNum CLIENT_HELLO \<mapsto> hmsg)\<rparr>))"
proof (cases "randomP p")
  case None
  then show ?thesis
    using assms
    by (cases "cookie p")
      (simp_all add: createPacket_def createHandshake_def createHandshakeClientHelloBody_def
        Let_def uintToArray_0_32 uintToArray_0_24 uintToArray_8 uintToArray_16 length_uintToArray nums_def
        createRecordHeader_def CLIENT_HELLO_def FINISHED_def toInt_def)
next
  case (Some r)
  then show ?thesis
    using assms
    by (cases "cookie p")
      (simp_all add: createPacket_def createHandshake_def createHandshakeClientHelloBody_def
        Let_def uintToArray_0_32 uintToArray_0_24 uintToArray_8 uintToArray_16 length_uintToArray nums_def
        createRecordHeader_def CLIENT_HELLO_def FINISHED_def toInt_def)
qed

lemma helloPacket_fields:
  "cType helloPacket = HANDSHAKE" "hType helloPacket = JNum CLIENT_HELLO"
  "sessionId helloPacket = JNum 0" "randomP helloPacket = None" "cookie helloPacket = None"
  "epoch helloPacket = 0" "headerSeq helloPacket = JNum 0" "handshakeSeq helloPacket = JNum 0"
  by (simp_all add: helloPacket_def)

lemma length_randomBytes: "length (randomBytes e k n) = n"
  by (induction n arbitrary: k) (simp_all add: uintToArray_8)

text \<open>What \<open>_sendHandshakeRequest\<close> does, field by field.\<close>

lemma sendHandshakeRequest_eq:
  "sendHandshakeRequest e s =
     (let r = nums (randomBytes e (randomCalls s) 28);
          body = nums (uintToArray (protocolVersion s) 16) @ nums [0, 0, 0, 0] @ r @ [JNum 0] @
                 [JNum 0] @ nums ([0, 2] @ uintToArray (cipherSuites s) 16 @ [1, 0]);
          hmsg = nums ([1] @ uintToArray (int (length body)) 24 @ [0, 0] @ [0, 0, 0] @
                       uintToArray (int (length body)) 24) @ body;
          msg = nums (createRecordHeader s helloPacket (int (length hmsg))) @ hmsg;
          s2 = s\<lparr> encrypted := False, clientRandom := Some (nums [0, 0, 0, 0] @ r),
                  randomCalls := randomCalls s + 28,
                  handshakeMessages := (handshakeMessages s)(JNum CLIENT_HELLO \<mapsto> hmsg) \<rparr>
      in case sendMsg msg None s2 of
           Inl err \<Rightarrow> s2
         | Inr s3 \<Rightarrow> s3\<lparr>helloClientPacket := Some (helloPacket\<lparr>randomP := Some r\<rparr>)\<rparr>)"
proof -
  define r where "r = nums (randomBytes e (randomCalls s) 28)"
  define body where
    "body = nums (uintToArray (protocolVersion s) 16) @ nums [0, 0, 0, 0] @ r @ [JNum 0] @
            [JNum 0] @ nums ([0, 2] @ uintToArray (cipherSuites s) 16 @ [1, 0])"
  define hmsg where
    "hmsg = nums ([1] @ uintToArray (int (length body)) 24 @ [0, 0] @ [0, 0, 0] @
                  uintToArray (int (length body)) 24) @ body"
  define msg where "msg = nums (createRecordHeader s helloPacket (int (length hmsg))) @ hmsg"
  define s2 where
    "s2 = s\<lparr> encrypted := False, clientRandom := Some (nums [0, 0, 0, 0] @ r),
               randomCalls := randomCalls s + 28,
               handshakeMessages := (handshakeMessages s)(JNum CLIENT_HELLO \<mapsto> hmsg) \<rparr>"
  have "createPacket e (s\<lparr>encrypted := False\<rparr>) helloPacket =
          Inr (msg, helloPacket\<lparr>randomP := Some r\<rparr>, s2)"
    unfolding s2_def msg_def hmsg_def body_def r_def
    by (simp add: createPacket_clientHello helloPacket_fields Let_def uintToArray_16 toInt_def
        createRecordHeader_def nums_def length_randomBytes uintToArray_24)
  then have "sendHandshakeRequest e s =
      (case sendMsg msg None s2 of
         Inl err \<Rightarrow> s2
       | Inr s3 \<Rightarrow> s3\<lparr>helloClientPacket := Some (helloPacket\<lparr>randomP := Some r\<rparr>)\<rparr>)"
    by (simp add: sendHandshakeRequest_def)
  then show ?thesis
    unfolding Let_def s2_def msg_def hmsg_def body_def r_def .
qed

lemma sendHandshakeRequest_frame:
  "handshakeInProgress (sendHandshakeRequest e s) = handshakeInProgress s"
  "sources (sendHandshakeRequest e s) = sources s"
  "nextSourceId (sendHandshakeRequest e s) = nextSourceId s"
  "timers (sendHandshakeRequest e s) = timers s"
  "outputCancelled (sendHandshakeRequest e s) = outputCancelled s"
  "emitted (sendHandshakeRequest e s) = emitted s"
  "connection (sendHandshakeRequest e s) = connection s"
  by (simp_all add: sendHandshakeRequest_eq Let_def sendMsg_def)

lemma sendHandshakeRequest_random:
  "clientRandom (sendHandshakeRequest e s) =
     Some (nums ([0, 0, 0, 0] @ randomBytes e (randomCalls s) 28))"
  "randomCalls (sendHandshakeRequest e s) = randomCalls s + 28"
  by (simp_all add: sendHandshakeRequest_eq Let_def sendMsg_def nums_def)

lemma sendHandshakeRequest_written:
  assumes "connection s" and "\<not> outputCancelled s"
  shows "\<exists>m. written (sendHandshakeRequest e s) = written s @ [m] \<and> isClientHello m \<and>
             recordField 5 6 m = nums [0, 0, 0, 0, 0, 0] \<and>
             recordField 17 2 m = nums [0, 0] \<and>
             clientRandom (sendHandshakeRequest e s) = Some (recordField 27 32 m)"
  using assms
  by (simp add: sendHandshakeRequest_eq Let_def sendMsg_def isClientHello_def recordField_def
      createRecordHeader_def helloPacket_fields uintToArray_8 uintToArray_16 uintToArray_48
      uintToArray_24 nums_def length_randomBytes HANDSHAKE_def CLIENT_HELLO_def toInt_def)

section \<open>Retransmission of the ClientHello\<close>

lemma initiateHandshake_attempt:
  assumes "c \<le> 2" and "connection s"
  shows "\<exists>m. isClientHello m \<and>
           written (initiateHandshake e c s) = written s @ [m] \<and>
           sources (initiateHandshake e c s) = sources s @ [(nextSourceId s, 200, c)] \<and>
           nextSourceId (initiateHandshake e c s) = nextSourceId s + 1 \<and>
           handshakeInProgress (initiateHandshake e c s) = handshakeInProgress s \<and>
           connection (initiateHandshake e c s)"
proof -
  obtain m where m: "written (sendHandshakeRequest e (s\<lparr>outputCancelled := False\<rparr>)) = written s @ [m]"
      "isClientHello m"
    using sendHandshakeRequest_written [of "s\<lparr>outputCancelled := False\<rparr>" e] assms(2) by auto
  show ?thesis
    using assms m by (simp add: initiateHandshake_def Let_def sendHandshakeRequest_frame)
qed

lemma initiateHandshake_gives_up:
  assumes "c > 2"
  shows "initiateHandshake e c s = s\<lparr>outputCancelled := False\<rparr>"
  using assms by (simp add: initiateHandshake_def)

lemma timerFires_retransmits:
  assumes "sources s = [(t, ms, c)]" and "handshakeInProgress s" and "c \<le> 1" and "t < nextSourceId s"
    and "connection s"
  shows "\<exists>m. isClientHello m \<and>
           written (timerFires e t s) = written s @ [m] \<and>
           sources (timerFires e t s) = [(nextSourceId s, 200, c + 1)] \<and>
           nextSourceId (timerFires e t s) = nextSourceId s + 1 \<and>
           handshakeInProgress (timerFires e t s) \<and>
           connection (timerFires e t s)"
proof -
  let ?s1 = "cancelOutput (s\<lparr>timers := removeFromArray e (timers s) t\<rparr>)"
  have c: "c + 1 \<le> 2" using assms(3) by simp
  obtain m where m: "isClientHello m"
      "written (initiateHandshake e (c + 1) ?s1) = written ?s1 @ [m]"
      "sources (initiateHandshake e (c + 1) ?s1) = sources ?s1 @ [(nextSourceId ?s1, 200, c + 1)]"
      "nextSourceId (initiateHandshake e (c + 1) ?s1) = nextSourceId ?s1 + 1"
      "handshakeInProgress (initiateHandshake e (c + 1) ?s1) = handshakeInProgress ?s1"
      "connection (initiateHandshake e (c + 1) ?s1)"
    using initiateHandshake_attempt [OF c, of ?s1 e] assms(5) by (auto simp: cancelOutput_def)
  show ?thesis
    using assms m
    by (simp add: timerFires_def findSource_def timeoutCallback_def Let_def cancelOutput_def)
qed

lemma timerFires_gives_up:
  assumes "sources s = [(t, ms, c)]" and "handshakeInProgress s" and "c \<ge> 2"
  shows "written (timerFires e t s) = written s \<and> sources (timerFires e t s) = []"
  using assms
  by (simp add: timerFires_def findSource_def timeoutCallback_def Let_def cancelOutput_def
      initiateHandshake_gives_up)

text \<open>
  C4, as amended. Without a response the client sends the ClientHello three times: once
  when the connection is there and once for each of the first two of three timeouts of
  200 ms; the third timeout sends nothing and arms no further timeout.
\<close>

theorem no_response_three_sends:
  assumes "handshakeInProgress s" and "sources s = []"
  shows "\<exists>m1 m2 m3 s'.
           fireTimers e [] (connectBridge e s) =
             Some ([(nextSourceId s, 200, 0), (nextSourceId s + 1, 200, 1),
                    (nextSourceId s + 2, 200, 2)], s') \<and>
           written s' = written s @ [m1, m2, m3] \<and>
           isClientHello m1 \<and> isClientHello m2 \<and> isClientHello m3 \<and> sources s' = []"
proof -
  let ?n = "nextSourceId s"
  let ?s0 = "s\<lparr>connection := True, outputCancelled := False, inputCancelled := False\<rparr>"
  let ?s1 = "connectBridge e s"
  obtain m1 where s1: "isClientHello m1" "written ?s1 = written s @ [m1]"
      "sources ?s1 = [(?n, 200, 0)]" "nextSourceId ?s1 = ?n + 1" "handshakeInProgress ?s1"
      "connection ?s1"
    using initiateHandshake_attempt [of 0 ?s0 e] assms by (auto simp: connectBridge_def)
  let ?s2 = "timerFires e ?n ?s1"
  obtain m2 where s2: "isClientHello m2" "written ?s2 = written ?s1 @ [m2]"
      "sources ?s2 = [(?n + 1, 200, 1)]" "nextSourceId ?s2 = ?n + 2" "handshakeInProgress ?s2"
      "connection ?s2"
    using timerFires_retransmits [of ?s1 ?n 200 0 e] s1 by auto
  let ?s3 = "timerFires e (?n + 1) ?s2"
  obtain m3 where s3: "isClientHello m3" "written ?s3 = written ?s2 @ [m3]"
      "sources ?s3 = [(?n + 2, 200, 2)]" "nextSourceId ?s3 = ?n + 3" "handshakeInProgress ?s3"
    using timerFires_retransmits [of ?s2 "?n + 1" 200 1 e] s2 by auto
  let ?s4 = "timerFires e (?n + 2) ?s3"
  have s4: "written ?s4 = written ?s3" "sources ?s4 = []"
    using timerFires_gives_up [of ?s3 "?n + 2" 200 2 e] s3 by auto
  have "fireTimers e [] ?s1 = fireTimers e [(?n, 200, 0)] ?s2"
    using s1 by (subst fireTimers.simps) simp
  also have "\<dots> = fireTimers e [(?n, 200, 0), (?n + 1, 200, 1)] ?s3"
    using s2 by (subst fireTimers.simps) simp
  also have "\<dots> = fireTimers e [(?n, 200, 0), (?n + 1, 200, 1), (?n + 2, 200, 2)] ?s4"
    using s3 by (subst fireTimers.simps) simp
  also have "\<dots> = Some ([(?n, 200, 0), (?n + 1, 200, 1), (?n + 2, 200, 2)], ?s4)"
    using s4 by (subst fireTimers.simps) simp
  finally have "fireTimers e [] ?s1 = Some ([(?n, 200, 0), (?n + 1, 200, 1), (?n + 2, 200, 2)], ?s4)" .
  moreover have "written ?s4 = written s @ [m1, m2, m3]"
    using s1 s2 s3 s4 by simp
  ultimately show ?thesis
    using s1(1) s2(1) s3(1) s4(2) by blast
qed

theorem no_response_three_sends_witness:
  "\<exists>m1 m2 m3 s'.
     fireTimers sampleEnv [] (connectBridge sampleEnv (init None None)) =
       Some ([(1, 200, 0), (2, 200, 1), (3, 200, 2)], s') \<and>
     written s' = [m1, m2, m3] \<and>
     isClientHello m1 \<and> isClientHello m2 \<and> isClientHello m3 \<and> sources s' = []"
  using no_response_three_sends [of "init None None" sampleEnv]
  by (simp add: init_def numeral_2_eq_2 numeral_3_eq_3)

text \<open>
  C4 as stated fails on a fresh client: after the last timeout three records have been
  written, not four.
\<close>

theorem no_response_counterexample:
  "map_option (\<lambda>(fired, s). (fired, length (written s)))
     (fireTimers sampleEnv [] (connectBridge sampleEnv (init None None))) =
   Some ([(1, 200, 0), (2, 200, 1), (3, 200, 2)], 3)"
  by code_simp

section \<open>The HelloVerifyRequest and the client random\<close>

lemma sendHandshakeRequest_helloSent:
  assumes "connection s"
  shows "helloSent (sendHandshakeRequest e s) (nums (randomBytes e (randomCalls s) 28))"
  using assms
  by (simp add: helloSent_def sendHandshakeRequest_eq Let_def sendMsg_def helloPacket_fields
      nums_def length_randomBytes)

lemma handleResponseHandshake_helloVerify:
  assumes "helloSent s r" and "rhType p = Some HELLO_VERIFY_REQUEST" and "rcookie p = Some c"
    and "\<not> outputCancelled s" and "connection s"
  shows "\<exists>s' m. handleResponseHandshake e s p = Inr s' \<and> written s' = written s @ [m] \<and>
           isClientHello m \<and>
           recordField 5 6 m = nums [0, 0, 0, 0, 0, 1] \<and>
           recordField 17 2 m = nums [0, 1] \<and>
           recordField 27 32 m = nums [0, 0, 0, 0] @ r \<and>
           recordField 60 (1 + length c) m = JNum (int (length c) mod 256) # c \<and>
           clientRandom s' = clientRandom s \<and> helloSent s' r \<and>
           randomCalls s' = randomCalls s \<and>
           sources s' = sources s \<and> timers s' = timers s \<and>
           handshakeInProgress s' = handshakeInProgress s \<and> encrypted s' = encrypted s"
proof -
  obtain hello where h: "helloClientPacket s = Some hello" "cType hello = HANDSHAKE"
      "hType hello = JNum CLIENT_HELLO" "sessionId hello = JNum 0" "epoch hello = 0"
      "randomP hello = Some r" "length r = 28" "clientRandom s = Some (nums [0, 0, 0, 0] @ r)"
    using assms(1) by (auto simp: helloSent_def split: option.splits)
  let ?p = "hello\<lparr>headerSeq := JNum 1, handshakeSeq := JNum 1, cookie := Some c\<rparr>"
  have p: "cType ?p = HANDSHAKE" "hType ?p = JNum CLIENT_HELLO" "sessionId ?p = JNum 0"
    using h by simp_all
  show ?thesis
    using assms(2-5) h
    by (simp add: handleResponseHandshake_def createPacket_clientHello [OF p] Let_def
        sendMsg_def isClientHello_def recordField_def createRecordHeader_def helloSent_def
        uintToArray_8 uintToArray_16 uintToArray_48 uintToArray_24 nums_def toInt_def
        HANDSHAKE_def CLIENT_HELLO_def HELLO_VERIFY_REQUEST_def SERVER_HELLO_def
        SERVER_HELLO_DONE_def)
qed

text \<open>
  C8, as amended. On a HelloVerifyRequest the client resends the ClientHello with
  record sequence number 1, handshake sequence number 1 and the cookie of the request,
  and stays in the handshake; it leaves the retransmission timeout armed. The client is
  connected (a record has arrived), it has sent a ClientHello, and its output is not
  cancelled.
\<close>

theorem helloVerifyRequest_resend:
  assumes "helloSent s r" and "rhType p = Some HELLO_VERIFY_REQUEST" and "rcookie p = Some c"
    and "\<not> outputCancelled s" and "connection s"
  shows "\<exists>s' m. handleResponseHandshake e s p = Inr s' \<and> written s' = written s @ [m] \<and>
           isClientHello m \<and>
           recordField 5 6 m = nums [0, 0, 0, 0, 0, 1] \<and>
           recordField 17 2 m = nums [0, 1] \<and>
           recordField 60 (1 + length c) m = JNum (int (length c) mod 256) # c \<and>
           sources s' = sources s \<and> timers s' = timers s \<and>
           handshakeInProgress s' = handshakeInProgress s \<and> encrypted s' = encrypted s"
  using handleResponseHandshake_helloVerify [OF assms, of e] by blast

theorem helloVerifyRequest_resend_witness:
  "\<exists>s' m. handleResponseHandshake sampleEnv (connectBridge sampleEnv (init None None))
             (emptyRpacket\<lparr>rcType := 22, rhType := Some 3, rcookie := Some (nums [0xAA, 0xBB])\<rparr>)
             = Inr s' \<and>
          written s' = written (connectBridge sampleEnv (init None None)) @ [m] \<and>
          isClientHello m \<and>
          recordField 5 6 m = nums [0, 0, 0, 0, 0, 1] \<and>
          recordField 17 2 m = nums [0, 1] \<and>
          recordField 60 3 m = nums [2, 0xAA, 0xBB] \<and>
          sources s' = [(1, 200, 0)] \<and> timers s' = [1] \<and>
          handshakeInProgress s' \<and> \<not> encrypted s'"
proof -
  let ?s = "connectBridge sampleEnv (init None None)"
  let ?p = "emptyRpacket\<lparr>rcType := 22, rhType := Some 3, rcookie := Some (nums [0xAA, 0xBB])\<rparr>"
  have 1: "helloSent ?s (nums (map int [0..<28]))" by code_simp
  have 2: "rhType ?p = Some HELLO_VERIFY_REQUEST" by (simp add: HELLO_VERIFY_REQUEST_def)
  have 3: "rcookie ?p = Some (nums [0xAA, 0xBB])" by simp
  have 4: "\<not> outputCancelled ?s" by code_simp
  have 5: "sources ?s = [(1, 200, 0)]" "timers ?s = [1]" "handshakeInProgress ?s" "\<not> encrypted ?s"
    by code_simp+
  have 6: "connection ?s" by code_simp
  show ?thesis
    using helloVerifyRequest_resend [OF 1 2 3 4 6, of sampleEnv] 5
    by (simp add: nums_def numeral_3_eq_3)
qed

text \<open>
  C8 as stated fails: after the HelloVerifyRequest has been handled (the second record is
  written) the timeout armed with the first ClientHello is still armed.
\<close>

theorem helloVerifyRequest_timer_counterexample:
  "(case run sampleEnv (init None None)
           [Connects,
            DataArrives [22, 0xfe, 0xfd, 0, 0, 0, 0, 0, 0, 0, 0, 0, 17,
                         3, 0, 0, 5, 0, 0, 0, 0, 0, 0, 0, 5, 0xfe, 0xfd, 2, 0xAA, 0xBB]] of
      Inr s \<Rightarrow> length (written s) = 2 \<and> sources s = [(1, 200, 0)] \<and> timers s = [1]
    | Inl err \<Rightarrow> False)"
  by code_simp

lemma randomBytes_draws:
  "randomBytes e k n = map (\<lambda>i. getRandomInt e (k + i) 0xFF) [0..<n]"
proof (induction n arbitrary: k)
  case 0
  then show ?case by simp
next
  case (Suc n)
  have "map (\<lambda>i. getRandomInt e (k + i) 0xFF) [0..<Suc n] =
          getRandomInt e k 0xFF # map (\<lambda>i. getRandomInt e (Suc k + i) 0xFF) [0..<n]"
    by (simp only: upt_conv_Cons [of 0 "Suc n"] map_Suc_upt [symmetric]) simp
  moreover have "uintToArray (getRandomInt e k 0xFF) 8 = [getRandomInt e k 0xFF]"
    by (simp add: uintToArray_8 getRandomInt_def)
  ultimately show ?case
    using Suc.IH [of "Suc k"] by simp
qed

lemma initiateHandshake_random:
  assumes "c \<le> 2"
  shows "clientRandom (initiateHandshake e c s) =
           Some (nums ([0, 0, 0, 0] @ randomBytes e (randomCalls s) 28))"
    and "randomCalls (initiateHandshake e c s) = randomCalls s + 28"
  using assms sendHandshakeRequest_random [of e "s\<lparr>outputCancelled := False\<rparr>"]
  by (simp_all add: initiateHandshake_def Let_def)

text \<open>
  C9, as amended. \<open>_clientRandom\<close> is a value of 32 bytes, four zero bytes in the place
  of the time and 28 random bytes. Every \<open>_sendHandshakeRequest\<close> draws it afresh: the 28
  bytes are the next 28 results of \<open>getRandomInt(0xFF)\<close>, which no earlier request has
  seen, and on a connected client whose output is not cancelled the ClientHello it sends
  carries them. \<open>_initiateHandshake\<close> makes such a request for the first ClientHello and
  for each retransmission by the timeout (attempts 0, 1 and 2). The ClientHello resent for
  a HelloVerifyRequest draws nothing: it carries the value of the last request and leaves
  it unchanged.
\<close>

theorem clientRandom_per_request:
  assumes "connection s" and "\<not> outputCancelled s"
  shows "(\<exists>m. written (sendHandshakeRequest e s) = written s @ [m] \<and> isClientHello m \<and>
              clientRandom (sendHandshakeRequest e s) =
                Some (nums ([0, 0, 0, 0] @ randomBytes e (randomCalls s) 28)) \<and>
              length (nums ([0, 0, 0, 0] @ randomBytes e (randomCalls s) 28)) = 32 \<and>
              recordField 27 32 m = nums ([0, 0, 0, 0] @ randomBytes e (randomCalls s) 28) \<and>
              helloSent (sendHandshakeRequest e s) (nums (randomBytes e (randomCalls s) 28))) \<and>
         randomBytes e (randomCalls s) 28 =
           map (\<lambda>i. getRandomInt e (randomCalls s + i) 0xFF) [0..<28] \<and>
         randomCalls (sendHandshakeRequest e s) = randomCalls s + 28 \<and>
         (c \<le> 2 \<longrightarrow>
            clientRandom (initiateHandshake e c s) =
              Some (nums ([0, 0, 0, 0] @ randomBytes e (randomCalls s) 28)) \<and>
            randomCalls (initiateHandshake e c s) = randomCalls s + 28) \<and>
         (helloSent s r \<and> rhType p = Some HELLO_VERIFY_REQUEST \<and> rcookie p = Some ck \<longrightarrow>
            (\<exists>s' m. handleResponseHandshake e s p = Inr s' \<and> written s' = written s @ [m] \<and>
                isClientHello m \<and> recordField 27 32 m = nums [0, 0, 0, 0] @ r \<and>
                clientRandom s' = clientRandom s \<and> randomCalls s' = randomCalls s \<and>
                helloSent s' r))"
proof (intro conjI impI)
  obtain m where m: "written (sendHandshakeRequest e s) = written s @ [m]" "isClientHello m"
      "clientRandom (sendHandshakeRequest e s) = Some (recordField 27 32 m)"
    using sendHandshakeRequest_written [OF assms, of e] by auto
  have f: "recordField 27 32 m = nums ([0, 0, 0, 0] @ randomBytes e (randomCalls s) 28)"
    using m(3) sendHandshakeRequest_random(1) [of e s] by simp
  have l: "length (nums ([0, 0, 0, 0] @ randomBytes e (randomCalls s) 28)) = 32"
    by (simp add: nums_def length_randomBytes)
  show "\<exists>m. written (sendHandshakeRequest e s) = written s @ [m] \<and> isClientHello m \<and>
              clientRandom (sendHandshakeRequest e s) =
                Some (nums ([0, 0, 0, 0] @ randomBytes e (randomCalls s) 28)) \<and>
              length (nums ([0, 0, 0, 0] @ randomBytes e (randomCalls s) 28)) = 32 \<and>
              recordField 27 32 m = nums ([0, 0, 0, 0] @ randomBytes e (randomCalls s) 28) \<and>
              helloSent (sendHandshakeRequest e s) (nums (randomBytes e (randomCalls s) 28))"
    using m(1,2) f l sendHandshakeRequest_random(1) [of e s]
      sendHandshakeRequest_helloSent [OF assms(1), of e]
    by blast
next
  show "randomBytes e (randomCalls s) 28 =
          map (\<lambda>i. getRandomInt e (randomCalls s + i) 0xFF) [0..<28]"
    by (rule randomBytes_draws)
next
  show "randomCalls (sendHandshakeRequest e s) = randomCalls s + 28"
    by (rule sendHandshakeRequest_random(2))
next
  assume "c \<le> 2"
  then show "clientRandom (initiateHandshake e c s) =
               Some (nums ([0, 0, 0, 0] @ randomBytes e (randomCalls s) 28))"
    by (rule initiateHandshake_random(1))
next
  assume "c \<le> 2"
  then show "randomCalls (initiateHandshake e c s) = randomCalls s + 28"
    by (rule initiateHandshake_random(2))
next
  assume h: "helloSent s r \<and> rhType p = Some HELLO_VERIFY_REQUEST \<and> rcookie p = Some ck"
  then show "\<exists>s' m. handleResponseHandshake e s p = Inr s' \<and> written s' = written s @ [m] \<and>
                isClientHello m \<and> recordField 27 32 m = nums [0, 0, 0, 0] @ r \<and>
                clientRandom s' = clientRandom s \<and> randomCalls s' = randomCalls s \<and>
                helloSent s' r"
    using handleResponseHandshake_helloVerify [of s r p ck e] assms by blast
qed

lemma randomBytes_sample: "randomBytes sampleEnv 28 28 = map int [28..<56]"
  by code_simp

lemma connected_sample:
  "connection (connectBridge sampleEnv (init None None))"
  "\<not> outputCancelled (connectBridge sampleEnv (init None None))"
  "randomCalls (connectBridge sampleEnv (init None None)) = 28"
  "helloSent (connectBridge sampleEnv (init None None)) (nums (map int [0..<28]))"
  "clientRandom (connectBridge sampleEnv (init None None)) =
     Some (nums ([0, 0, 0, 0] @ map int [0..<28]))"
  by code_simp+

theorem clientRandom_per_request_witness:
  "(\<exists>m. written (sendHandshakeRequest sampleEnv (connectBridge sampleEnv (init None None))) =
          written (connectBridge sampleEnv (init None None)) @ [m] \<and> isClientHello m \<and>
        clientRandom (sendHandshakeRequest sampleEnv (connectBridge sampleEnv (init None None))) =
          Some (nums ([0, 0, 0, 0] @ map int [28..<56])) \<and>
        recordField 27 32 m = nums ([0, 0, 0, 0] @ map int [28..<56])) \<and>
   randomCalls (sendHandshakeRequest sampleEnv (connectBridge sampleEnv (init None None))) = 56 \<and>
   clientRandom (initiateHandshake sampleEnv 1 (connectBridge sampleEnv (init None None))) =
     Some (nums ([0, 0, 0, 0] @ map int [28..<56])) \<and>
   (\<exists>s' m. handleResponseHandshake sampleEnv (connectBridge sampleEnv (init None None))
              (emptyRpacket\<lparr>rcType := 22, rhType := Some 3, rcookie := Some []\<rparr>) = Inr s' \<and>
           written s' = written (connectBridge sampleEnv (init None None)) @ [m] \<and>
           recordField 27 32 m = nums ([0, 0, 0, 0] @ map int [0..<28]) \<and>
           clientRandom s' = Some (nums ([0, 0, 0, 0] @ map int [0..<28])) \<and>
           randomCalls s' = 28)"
proof -
  let ?b = "connectBridge sampleEnv (init None None)"
  let ?q = "emptyRpacket\<lparr>rcType := 22, rhType := Some 3, rcookie := Some []\<rparr>"
  note t = clientRandom_per_request [OF connected_sample(1,2), of sampleEnv 1
      "nums (map int [0..<28])" ?q "[]"]
  have c3: "rhType ?q = Some HELLO_VERIFY_REQUEST \<and> rcookie ?q = Some []"
    by (simp add: HELLO_VERIFY_REQUEST_def)
  from t [THEN conjunct1]
  have a: "\<exists>m. written (sendHandshakeRequest sampleEnv ?b) = written ?b @ [m] \<and> isClientHello m \<and>
        clientRandom (sendHandshakeRequest sampleEnv ?b) =
          Some (nums ([0, 0, 0, 0] @ map int [28..<56])) \<and>
        recordField 27 32 m = nums ([0, 0, 0, 0] @ map int [28..<56])"
    unfolding connected_sample(3) randomBytes_sample by blast
  from t [THEN conjunct2, THEN conjunct2, THEN conjunct1]
  have b: "randomCalls (sendHandshakeRequest sampleEnv ?b) = 56"
    unfolding connected_sample(3) by simp
  from t [THEN conjunct2, THEN conjunct2, THEN conjunct2, THEN conjunct1]
  have c: "clientRandom (initiateHandshake sampleEnv 1 ?b) =
             Some (nums ([0, 0, 0, 0] @ map int [28..<56]))"
    unfolding connected_sample(3) randomBytes_sample by simp
  from t [THEN conjunct2, THEN conjunct2, THEN conjunct2, THEN conjunct2] connected_sample(4) c3
  have d: "\<exists>s' m. handleResponseHandshake sampleEnv ?b ?q = Inr s' \<and> written s' = written ?b @ [m] \<and>
           recordField 27 32 m = nums ([0, 0, 0, 0] @ map int [0..<28]) \<and>
           clientRandom s' = Some (nums ([0, 0, 0, 0] @ map int [0..<28])) \<and>
           randomCalls s' = 28"
    unfolding connected_sample(3,5) by (auto simp: nums_def)
  show ?thesis using a b c d by blast
qed

text \<open>
  C9 as stated fails: the retransmission by the timeout replaces \<open>_clientRandom\<close>, and
  the two ClientHello records carry different random bytes.
\<close>

theorem clientRandom_counterexample:
  "clientRandom (connectBridge sampleEnv (init None None)) =
     Some (nums ([0, 0, 0, 0] @ map int [0..<28])) \<and>
   clientRandom (timerFires sampleEnv 1 (connectBridge sampleEnv (init None None))) =
     Some (nums ([0, 0, 0, 0] @ map int [28..<56])) \<and>
   map (recordField 27 32) (written (timerFires sampleEnv 1 (connectBridge sampleEnv (init None None)))) =
     [nums ([0, 0, 0, 0] @ map int [0..<28]), nums ([0, 0, 0, 0] @ map int [28..<56])]"
  by code_simp

section \<open>The application data channel\<close>

lemma encryptMsg_ok:
  assumes "clientIV s = Some iv"
  shows "\<exists>body. encryptMsg e s p msg =
           Inr (nums (uintToArray (epoch p) 16) @ nums (uintToArray (toInt (headerSeq p)) 48) @ body)"
  using assms by (simp add: encryptMsg_def Let_def)

lemma dataPacket_fields:
  "cType (dataPacket x) = APPLICATION_DATA" "epoch (dataPacket x) = 1" "headerSeq (dataPacket x) = x"
  by (simp_all add: dataPacket_def)


lemma sendMsg_connected:
  assumes "connection s"
  shows "sendMsg msg cb s =
           Inr (if outputCancelled s then s
                else s\<lparr>written := written s @ [msg], pendingWrites := pendingWrites s @ [cb]\<rparr>)"
  using assms by (simp add: sendMsg_def)

lemma sendEncrypted_encrypted:
  assumes "encrypted s" and "clientIV s = Some iv" and "connection s"
  shows "\<exists>body. sendEncrypted e cleartext s =
           Inr (True,
                (let s2 = s\<lparr>readyToSend := Some False, streamSeq := js_incr (streamSeq s)\<rparr>;
                     m = nums (createRecordHeader s (dataPacket (js_incr (streamSeq s)))
                                 (int (length body))) @ body
                 in if outputCancelled s then s2
                    else s2\<lparr>written := written s @ [m], pendingWrites := pendingWrites s @ [None]\<rparr>)) \<and>
           take 8 body = nums (uintToArray 1 16) @ nums (uintToArray (toInt (js_incr (streamSeq s))) 48)"
proof -
  let ?s2 = "s\<lparr>readyToSend := Some False, streamSeq := js_incr (streamSeq s)\<rparr>"
  let ?p = "dataPacket (js_incr (streamSeq s))"
  obtain body where b: "encryptMsg e ?s2 ?p cleartext =
      Inr (nums (uintToArray (epoch ?p) 16) @ nums (uintToArray (toInt (headerSeq ?p)) 48) @ body)"
    using encryptMsg_ok [of ?s2 iv e ?p cleartext] assms(2) by auto
  have c: "createRecordHeader ?s2 q n = createRecordHeader s q n" for q n
    by (simp add: createRecordHeader_def)
  have d: "connection ?s2" using assms(3) by simp
  let ?full = "nums (uintToArray 1 16) @ nums (uintToArray (toInt (js_incr (streamSeq s))) 48) @ body"
  have "sendEncrypted e cleartext s =
          Inr (True,
               (let s2 = ?s2; m = nums (createRecordHeader s ?p (int (length ?full))) @ ?full
                in if outputCancelled s then s2
                   else s2\<lparr>written := written s @ [m], pendingWrites := pendingWrites s @ [None]\<rparr>))"
    using assms(1) b
    by (simp add: sendEncrypted_def Let_def c dataPacket_fields sendMsg_connected [OF d])
  moreover have "take 8 ?full =
      nums (uintToArray 1 16) @ nums (uintToArray (toInt (js_incr (streamSeq s))) 48)"
    by (simp add: nums_def length_uintToArray)
  ultimately show ?thesis by blast
qed

lemma handleResponseHandshake_finished:
  assumes "rhType p = Some FINISHED"
  shows "handleResponseHandshake e s p =
           Inr (s\<lparr> encrypted := True, handshakeInProgress := False, streamSeq := JNum 0,
                   emitted := emitted s @ [Connected] \<rparr>)"
  using assms
  by (simp add: handleResponseHandshake_def FINISHED_def SERVER_HELLO_def SERVER_HELLO_DONE_def
      HELLO_VERIFY_REQUEST_def)




lemma server_finished_sample:
  "(case run sampleEnv (init (Some ''0102'') (Some ''id''))
           (handshakeToClientFinished @ [DataArrives sampleServerFinished]) of
      Inl err \<Rightarrow> False
    | Inr s \<Rightarrow> connection s \<and> encrypted s \<and> clientIV s = Some (nums [0, 0, 0, 0]) \<and>
               \<not> outputCancelled s \<and> protocolVersion s = DTLS_1_2 \<and> streamSeq s = JNum 0)"
  by code_simp



section \<open>Sequence numbers of application data\<close>

lemma map_upt_Suc_shift: "map f [0..<Suc n] = f 0 # map (\<lambda>i. f (Suc i)) [0..<n]"
  by (simp add: upt_conv_Cons map_Suc_upt [symmetric] del: upt_Suc)

lemma sendEncrypted_record:
  assumes "encrypted s" and "clientIV s = Some iv" and "streamSeq s = JNum k" and "0 \<le> k"
    and "k + 1 < 2 ^ 31" and "\<not> outputCancelled s" and "protocolVersion s = DTLS_1_2"
    and "connection s"
  shows "\<exists>s' m. sendEncrypted e cleartext s = Inr (True, s') \<and> written s' = written s @ [m] \<and>
           recordField 0 5 m = nums [23, 0xfe, 0xfd, 0, 1] \<and>
           recordField 5 6 m = nums (bigEndian 6 (k + 1)) \<and>
           encrypted s' \<and> clientIV s' = Some iv \<and> streamSeq s' = JNum (k + 1) \<and>
           \<not> outputCancelled s' \<and> protocolVersion s' = DTLS_1_2 \<and> connection s'"
proof -
  have i: "js_incr (streamSeq s) = JNum (k + 1)"
    using assms(3,5) by (simp add: js_incr_def)
  obtain body where b: "sendEncrypted e cleartext s =
      Inr (True,
           (s\<lparr>readyToSend := Some False, streamSeq := JNum (k + 1),
               written := written s @
                 [nums (createRecordHeader s (dataPacket (JNum (k + 1))) (int (length body))) @ body],
               pendingWrites := pendingWrites s @ [None]\<rparr>))"
    using sendEncrypted_encrypted [OF assms(1,2,8), of e cleartext] assms(6) unfolding i
    by (auto simp: Let_def)
  have h: "createRecordHeader s (dataPacket (JNum (k + 1))) (int (length body)) =
      bigEndian 1 APPLICATION_DATA @ bigEndian 2 DTLS_1_2 @ bigEndian 2 1 @ bigEndian 6 (k + 1) @
      bigEndian 2 (int (length body))"
    using createRecordHeader_bytes [of "dataPacket (JNum (k + 1))" "k + 1" s "int (length body)"]
      assms(4,5,7)
    by (simp add: dataPacket_fields)
  have l: "length (bigEndian 6 (k + 1)) = 6"
    by (simp add: numeral_eq_Suc)
  show ?thesis
    using assms b
    by (simp add: h recordField_def nums_def bigEndian_1 bigEndian_2 l
        APPLICATION_DATA_def DTLS_1_2_def)
qed

lemma run_sendEncrypted:
  assumes "encrypted s" and "clientIV s = Some iv" and "streamSeq s = JNum k" and "0 \<le> k"
    and "k + int (length cs) < 2 ^ 31" and "\<not> outputCancelled s" and "protocolVersion s = DTLS_1_2"
    and "connection s"
  shows "\<exists>s' ms. run e s (map CallSendEncrypted cs) = Inr s' \<and> written s' = written s @ ms \<and>
           map (recordField 0 5) ms = replicate (length cs) (nums [23, 0xfe, 0xfd, 0, 1]) \<and>
           map (recordField 5 6) ms = map (\<lambda>i. nums (bigEndian 6 (k + 1 + int i))) [0..<length cs] \<and>
           streamSeq s' = JNum (k + int (length cs)) \<and>
           encrypted s' \<and> clientIV s' = Some iv \<and> \<not> outputCancelled s' \<and>
           protocolVersion s' = DTLS_1_2 \<and> connection s'"
  using assms
proof (induction cs arbitrary: s k)
  case Nil
  then show ?case by simp
next
  case (Cons c cs)
  have k1: "k + 1 < 2 ^ 31" using Cons.prems(5) by simp
  obtain s1 m where s1: "sendEncrypted e (nums (map uint c)) s = Inr (True, s1)"
      "written s1 = written s @ [m]"
      "recordField 0 5 m = nums [23, 0xfe, 0xfd, 0, 1]"
      "recordField 5 6 m = nums (bigEndian 6 (k + 1))"
      "encrypted s1" "clientIV s1 = Some iv" "streamSeq s1 = JNum (k + 1)"
      "\<not> outputCancelled s1" "protocolVersion s1 = DTLS_1_2" "connection s1"
    using sendEncrypted_record [OF Cons.prems(1-4) k1 Cons.prems(6,7,8), of e "nums (map uint c)"]
    by blast
  have "0 \<le> k + 1" "k + 1 + int (length cs) < 2 ^ 31"
    using Cons.prems(4,5) by simp_all
  then obtain s' ms where s': "run e s1 (map CallSendEncrypted cs) = Inr s'"
      "written s' = written s1 @ ms"
      "map (recordField 0 5) ms = replicate (length cs) (nums [23, 0xfe, 0xfd, 0, 1])"
      "map (recordField 5 6) ms = map (\<lambda>i. nums (bigEndian 6 (k + 1 + 1 + int i))) [0..<length cs]"
      "streamSeq s' = JNum (k + 1 + int (length cs))"
      "encrypted s'" "clientIV s' = Some iv" "\<not> outputCancelled s'"
      "protocolVersion s' = DTLS_1_2" "connection s'"
    using Cons.IH [OF s1(5,6,7) _ _ s1(8,9,10)] by blast
  have "run e s (map CallSendEncrypted (c # cs)) = Inr s'"
    using s1(1) s'(1) by (simp add: step_def)
  moreover have "written s' = written s @ (m # ms)"
    using s1(2) s'(2) by simp
  moreover have "map (recordField 5 6) (m # ms) =
      map (\<lambda>i. nums (bigEndian 6 (k + 1 + int i))) [0..<length (c # cs)]"
    using s1(4) s'(4) by (simp add: map_upt_Suc_shift add.assoc del: upt_Suc)
  moreover have "map (recordField 0 5) (m # ms) = replicate (length (c # cs)) (nums [23, 0xfe, 0xfd, 0, 1])"
    using s1(3) s'(3) by simp
  moreover have "streamSeq s' = JNum (k + int (length (c # cs)))"
    using s'(5) by (simp add: add.assoc)
  ultimately show ?case using s'(6-10) by blast
qed

text \<open>
  C7, as amended. Every Finished of the server that the client handles sets \<open>streamSeq\<close>
  to 0 and changes nothing else that sending depends on, so a later Finished starts the
  numbering again. On a connected client with \<open>_encrypted\<close> set, the client IV derived,
  the output not cancelled, the protocol version of \<open>_init\<close> and \<open>streamSeq = k\<close>,
  consecutive calls of \<open>sendEncrypted\<close> (fewer than \<open>2^31 - k\<close> of them) write
  application-data records at epoch 1 with the sequence numbers \<open>k + 1\<close>, \<open>k + 2\<close>, and
  so on, and leave the client in such a state: the first record after a Finished carries
  1, not 0, because the increment comes before the record is built.
\<close>

theorem streamSeq_after_finished:
  "(rhType p = Some FINISHED \<longrightarrow>
      (\<exists>s0. handleResponseHandshake e s p = Inr s0 \<and> streamSeq s0 = JNum 0 \<and> encrypted s0 \<and>
            connection s0 = connection s \<and> clientIV s0 = clientIV s \<and>
            outputCancelled s0 = outputCancelled s \<and> protocolVersion s0 = protocolVersion s \<and>
            written s0 = written s)) \<and>
   (connection s \<and> encrypted s \<and> clientIV s = Some iv \<and> \<not> outputCancelled s \<and>
    protocolVersion s = DTLS_1_2 \<and> streamSeq s = JNum k \<and> 0 \<le> k \<and>
    k + int (length cs) < 2 ^ 31 \<longrightarrow>
      (\<exists>s' ms. run e s (map CallSendEncrypted cs) = Inr s' \<and> written s' = written s @ ms \<and>
          map (recordField 0 5) ms = replicate (length cs) (nums [23, 0xfe, 0xfd, 0, 1]) \<and>
          map (recordField 5 6) ms =
            map (\<lambda>i. nums (bigEndian 6 (k + 1 + int i))) [0..<length cs] \<and>
          streamSeq s' = JNum (k + int (length cs)) \<and>
          connection s' \<and> encrypted s' \<and> clientIV s' = Some iv \<and> \<not> outputCancelled s' \<and>
          protocolVersion s' = DTLS_1_2))"
proof (intro conjI impI)
  assume "rhType p = Some FINISHED"
  then show "\<exists>s0. handleResponseHandshake e s p = Inr s0 \<and> streamSeq s0 = JNum 0 \<and> encrypted s0 \<and>
            connection s0 = connection s \<and> clientIV s0 = clientIV s \<and>
            outputCancelled s0 = outputCancelled s \<and> protocolVersion s0 = protocolVersion s \<and>
            written s0 = written s"
    by (simp add: handleResponseHandshake_finished)
next
  assume a: "connection s \<and> encrypted s \<and> clientIV s = Some iv \<and> \<not> outputCancelled s \<and>
    protocolVersion s = DTLS_1_2 \<and> streamSeq s = JNum k \<and> 0 \<le> k \<and>
    k + int (length cs) < 2 ^ 31"
  then have "\<exists>s' ms. run e s (map CallSendEncrypted cs) = Inr s' \<and> written s' = written s @ ms \<and>
           map (recordField 0 5) ms = replicate (length cs) (nums [23, 0xfe, 0xfd, 0, 1]) \<and>
           map (recordField 5 6) ms = map (\<lambda>i. nums (bigEndian 6 (k + 1 + int i))) [0..<length cs] \<and>
           streamSeq s' = JNum (k + int (length cs)) \<and>
           encrypted s' \<and> clientIV s' = Some iv \<and> \<not> outputCancelled s' \<and>
           protocolVersion s' = DTLS_1_2 \<and> connection s'"
    by (intro run_sendEncrypted [of s iv k cs e]) simp_all
  then show "\<exists>s' ms. run e s (map CallSendEncrypted cs) = Inr s' \<and> written s' = written s @ ms \<and>
          map (recordField 0 5) ms = replicate (length cs) (nums [23, 0xfe, 0xfd, 0, 1]) \<and>
          map (recordField 5 6) ms =
            map (\<lambda>i. nums (bigEndian 6 (k + 1 + int i))) [0..<length cs] \<and>
          streamSeq s' = JNum (k + int (length cs)) \<and>
          connection s' \<and> encrypted s' \<and> clientIV s' = Some iv \<and> \<not> outputCancelled s' \<and>
          protocolVersion s' = DTLS_1_2"
    by blast
qed

theorem streamSeq_after_finished_witness:
  "(case run sampleEnv (init (Some ''0102'') (Some ''id''))
           (handshakeToClientFinished @ [DataArrives sampleServerFinished]) of
      Inl err \<Rightarrow> False
    | Inr s \<Rightarrow>
        (\<exists>s' ms. run sampleEnv s [CallSendEncrypted [1, 2, 3], CallSendEncrypted [4]] = Inr s' \<and>
            written s' = written s @ ms \<and>
            map (recordField 0 5) ms = [nums [23, 0xfe, 0xfd, 0, 1], nums [23, 0xfe, 0xfd, 0, 1]] \<and>
            map (recordField 5 6) ms = [nums [0, 0, 0, 0, 0, 1], nums [0, 0, 0, 0, 0, 2]] \<and>
            streamSeq s' = JNum 2 \<and>
            (\<exists>s0. handleResponseHandshake sampleEnv s' (emptyRpacket\<lparr>rcType := 22, rhType := Some 20\<rparr>)
                     = Inr s0 \<and>
                  streamSeq s0 = JNum 0 \<and> connection s0 \<and> written s0 = written s')))"
proof -
  let ?r = "run sampleEnv (init (Some ''0102'') (Some ''id''))
              (handshakeToClientFinished @ [DataArrives sampleServerFinished])"
  let ?p = "emptyRpacket\<lparr>rcType := 22, rhType := Some 20\<rparr>"
  let ?cs = "[[1, 2, 3], [4 :: 8 word]]"
  obtain c where c: "?r = Inr c" "connection c" "encrypted c"
      "clientIV c = Some (nums [0, 0, 0, 0])" "\<not> outputCancelled c"
      "protocolVersion c = DTLS_1_2" "streamSeq c = JNum 0"
    using server_finished_sample by (cases ?r) auto
  have p: "rhType ?p = Some FINISHED" by (simp add: FINISHED_def)
  have b: "bigEndian 6 1 = [0, 0, 0, 0, 0, 1]" "bigEndian 6 2 = [0, 0, 0, 0, 0, 2]"
    by (simp_all add: bigEndian_6_small)
  have "\<exists>s' ms. run sampleEnv c (map CallSendEncrypted ?cs) = Inr s' \<and> written s' = written c @ ms \<and>
          map (recordField 0 5) ms = replicate (length ?cs) (nums [23, 0xfe, 0xfd, 0, 1]) \<and>
          map (recordField 5 6) ms =
            map (\<lambda>i. nums (bigEndian 6 (0 + 1 + int i))) [0..<length ?cs] \<and>
          streamSeq s' = JNum (0 + int (length ?cs)) \<and>
          connection s' \<and> encrypted s' \<and> clientIV s' = Some (nums [0, 0, 0, 0]) \<and>
          \<not> outputCancelled s' \<and> protocolVersion s' = DTLS_1_2"
    using streamSeq_after_finished [of ?p sampleEnv c "nums [0, 0, 0, 0]" 0 ?cs, THEN conjunct2] c(2-7)
    by simp
  then obtain s' ms where s':
      "run sampleEnv c [CallSendEncrypted [1, 2, 3], CallSendEncrypted [4]] = Inr s'"
      "written s' = written c @ ms"
      "map (recordField 0 5) ms = [nums [23, 0xfe, 0xfd, 0, 1], nums [23, 0xfe, 0xfd, 0, 1]]"
      "map (recordField 5 6) ms = [nums [0, 0, 0, 0, 0, 1], nums [0, 0, 0, 0, 0, 2]]"
      "streamSeq s' = JNum 2" "connection s'"
    by (auto simp: b upt_conv_Cons numeral_2_eq_2)
  have "\<exists>s0. handleResponseHandshake sampleEnv s' ?p = Inr s0 \<and> streamSeq s0 = JNum 0 \<and>
          connection s0 \<and> written s0 = written s'"
    using streamSeq_after_finished [of ?p sampleEnv s' "[]" 0 "[]", THEN conjunct1] p s'(6)
    by auto
  then show ?thesis
    unfolding c(1) using s'(1-5) by auto
qed

text \<open>
  C7 as stated fails: after a complete handshake the first application-data record
  carries the sequence number 1, not 0.
\<close>

theorem streamSeq_counterexample:
  "(case run sampleEnv (init (Some ''0102'') (Some ''id''))
           (handshakeToClientFinished @
            [DataArrives sampleServerFinished, CallSendEncrypted [1, 2, 3]]) of
      Inl err \<Rightarrow> False
    | Inr s \<Rightarrow> emitted s = [Connected] \<and>
               recordField 0 5 (last (written s)) = nums [23, 0xfe, 0xfd, 0, 1] \<and>
               recordField 5 6 (last (written s)) = nums [0, 0, 0, 0, 0, 1])"
  by code_simp

text \<open>
  A second Finished of the server starts the numbering again: the records of three calls,
  the third after that Finished, carry 1, 2 and 1.
\<close>

lemma streamSeq_restarts_sample:
  "(case run sampleEnv (init (Some ''0102'') (Some ''id''))
           (handshakeToClientFinished @
            [DataArrives sampleServerFinished, CallSendEncrypted [1, 2, 3], CallSendEncrypted [4],
             DataArrives sampleServerFinished, CallSendEncrypted [5]]) of
      Inl err \<Rightarrow> False
    | Inr s \<Rightarrow> map (recordField 5 6) (drop 4 (written s)) =
                 [nums [0, 0, 0, 0, 0, 1], nums [0, 0, 0, 0, 0, 2], nums [0, 0, 0, 0, 0, 1]])"
  by code_simp

section \<open>The connected notification\<close>













end
